theory Spec2Isabelle
  imports Complex_Main "HOL-Library.Multiset"
begin

section \<open>Data model\<close>

text \<open>
  The records follow the TypeScript interfaces of \<^verbatim>\<open>src/app/lib/database.ts\<close> and of the
  service modules. Field names carry a prefix because several interfaces share names
  (\<^verbatim>\<open>id\<close>, \<^verbatim>\<open>restaurantId\<close>, ...). An ISO timestamp string is represented by the epoch
  milliseconds that \<^verbatim>\<open>new Date(s).getTime()\<close> yields for it, the only way the code ever reads
  one; \<^verbatim>\<open>Date.now()\<close> and \<^verbatim>\<open>new Date()\<close> are clock reads handed to the model as arguments.
  JavaScript numbers are exact here: seat counts and star ratings are integers, averages
  and the stored restaurant rating are rationals.
\<close>

type_synonym timestamp = int

datatype booking_status = Pending | Confirmed | Completed | Cancelled

datatype restaurant_status = Active | AwaitingApproval | Blocked

datatype user_role = Customer | Manager | Admin

record User =
  u_id :: string
  u_email :: string
  u_name :: string
  u_role :: user_role
  u_profileImage :: "string option"
  u_phone :: "string option"
  u_createdAt :: timestamp

record Restaurant =
  r_id :: string
  r_name :: string
  r_cuisine :: string
  r_location :: string
  r_city :: string
  r_division :: string
  r_country :: string
  r_description :: string
  r_image :: string
  r_rating :: rat
  r_totalReviews :: nat
  r_openingTime :: string
  r_closingTime :: string
  r_totalSeats :: int
  r_priceRange :: string
  r_phone :: string
  r_managerId :: "string option"
  r_status :: restaurant_status
  r_createdAt :: timestamp

text \<open>The optional populated \<^verbatim>\<open>restaurant\<close> object of a service-level booking.\<close>

record BookingRestaurant =
  br_id :: string
  br_name :: string
  br_image :: string
  br_location :: string

text \<open>
  \<^verbatim>\<open>Booking\<close>: the interface of \<^verbatim>\<open>database.ts\<close> and the one of \<^verbatim>\<open>booking.service.ts\<close>
  differ only in the optional \<^verbatim>\<open>restaurant\<close> field, which is \<open>None\<close> for a record of the
  former.
\<close>

record Booking =
  b_id :: string
  b_restaurantId :: string
  b_userId :: string
  b_date :: string
  b_timeSlot :: string
  b_seats :: int
  b_status :: booking_status
  b_customerName :: string
  b_customerEmail :: string
  b_customerPhone :: string
  b_specialRequests :: "string option"
  b_createdAt :: timestamp
  b_updatedAt :: timestamp
  b_restaurant :: "BookingRestaurant option"

record ReviewRestaurant =
  rr_id :: string
  rr_name :: string
  rr_image :: string

record Review =
  rv_id :: string
  rv_restaurantId :: string
  rv_userId :: string
  rv_userName :: string
  rv_userImage :: "string option"
  rv_rating :: int
  rv_comment :: string
  rv_createdAt :: timestamp
  rv_restaurant :: "ReviewRestaurant option"

record FavouriteRestaurant =
  fr_id :: string
  fr_name :: string
  fr_cuisine :: string
  fr_image :: string
  fr_rating :: rat
  fr_location :: string
  fr_priceRange :: string

record Favourite =
  f_id :: string
  f_userId :: string
  f_restaurantId :: string
  f_createdAt :: timestamp
  f_restaurant :: "FavouriteRestaurant option"

text \<open>
  Every \<^verbatim>\<open>throw new Error(...)\<close> of the modelled code is one constructor; the comment gives
  the message.
\<close>

datatype error =
    NotLoggedIn           \<comment> \<open>'You must be logged in ...'\<close>
  | RestaurantNotFound    \<comment> \<open>'Restaurant not found'\<close>
  | BookingNotFound       \<comment> \<open>'Booking not found'\<close>
  | ReviewNotFound        \<comment> \<open>'Review not found'\<close>
  | AlreadyFavourited     \<comment> \<open>'Restaurant is already in your favourites'\<close>

text \<open>
  One \<^verbatim>\<open>localStorage\<close> entry holding a JSON array. The readers return the empty array
  both for a missing entry and for one that \<^verbatim>\<open>JSON.parse\<close> rejects.
\<close>

datatype 'a slot = Absent | Corrupt | Stored "'a list"

section \<open>Helpers standing for JavaScript built-ins\<close>

text \<open>\<^verbatim>\<open>Array.prototype.findIndex\<close>; \<open>None\<close> stands for the result \<^verbatim>\<open>-1\<close>.\<close>

fun findIndex :: "('a \<Rightarrow> bool) \<Rightarrow> 'a list \<Rightarrow> nat option" where
  "findIndex P [] = None"
| "findIndex P (x # xs) = (if P x then Some 0 else map_option Suc (findIndex P xs))"

text \<open>\<^verbatim>\<open>Array.prototype.some\<close>.\<close>

definition some :: "('a \<Rightarrow> bool) \<Rightarrow> 'a list \<Rightarrow> bool" where
  "some P xs = list_ex P xs"

text \<open>\<^verbatim>\<open>xs.splice(i, 1)\<close>: the array without its element at index \<open>i\<close>.\<close>

definition splice1 :: "nat \<Rightarrow> 'a list \<Rightarrow> 'a list" where
  "splice1 i xs = take i xs @ drop (Suc i) xs"

text \<open>\<^verbatim>\<open>Math.round\<close>: the nearest integer, a half rounded towards plus infinity.\<close>

definition Math_round :: "rat \<Rightarrow> int" where
  "Math_round x = \<lfloor>x + 1 / 2\<rfloor>"

text \<open>The decimal rendering of a number inside a template literal.\<close>

definition digit_char :: "nat \<Rightarrow> char" where
  "digit_char d = ''0123456789'' ! d"

function decimal :: "nat \<Rightarrow> string" where
  "decimal n =
     (if 10 \<le> n then decimal (n div 10) @ [digit_char (n mod 10)] else [digit_char n])"
  by pat_completeness auto
termination
  by (relation "measure (\<lambda>n. n)") auto

definition number_text :: "int \<Rightarrow> string" where
  "number_text k = (if 0 \<le> k then decimal (nat k) else CHR ''-'' # decimal (nat (- k)))"

section \<open>Database (\<^verbatim>\<open>class Database\<close> of \<^verbatim>\<open>database.ts\<close>)\<close>

text \<open>
  The state is what the class keeps in \<^verbatim>\<open>localStorage\<close>: one array per key. Every method
  reads the array it needs with \<^verbatim>\<open>getData\<close>, changes its copy and writes it back with
  \<^verbatim>\<open>setData\<close>.
\<close>

record Database =
  db_restaurants :: "Restaurant list"
  db_bookings :: "Booking list"
  db_reviews :: "Review list"
  db_favourites :: "Favourite list"

definition getRestaurantById :: "Database \<Rightarrow> string \<Rightarrow> Restaurant option" where
  "getRestaurantById db ident = find (\<lambda>r. r_id r = ident) (db_restaurants db)"

definition Database_createBooking ::
  "timestamp \<Rightarrow> timestamp \<Rightarrow> timestamp \<Rightarrow> Booking \<Rightarrow> Database \<Rightarrow> Booking \<times> Database" where
  "Database_createBooking now0 now1 now2 booking db =
     (let newBooking = booking\<lparr> b_id := ''booking-'' @ number_text now0,
                                 b_createdAt := now1, b_updatedAt := now2 \<rparr>
      in (newBooking, db\<lparr> db_bookings := db_bookings db @ [newBooking] \<rparr>))"

definition Database_getAvailableSeats :: "Database \<Rightarrow> string \<Rightarrow> string \<Rightarrow> string \<Rightarrow> int" where
  "Database_getAvailableSeats db restaurantId date timeSlot =
     (case getRestaurantById db restaurantId of
        None \<Rightarrow> 0
      | Some restaurant \<Rightarrow>
          (let confirmedBookings = filter (\<lambda>b.
                  b_restaurantId b = restaurantId \<and> b_date b = date \<and> b_timeSlot b = timeSlot \<and>
                  (b_status b = Confirmed \<or> b_status b = Pending)) (db_bookings db);
               bookedSeats = foldl (\<lambda>sum b. sum + b_seats b) 0 confirmedBookings
           in r_totalSeats restaurant - bookedSeats))"

definition getReviewsByRestaurant :: "Database \<Rightarrow> string \<Rightarrow> Review list" where
  "getReviewsByRestaurant db restaurantId =
     filter (\<lambda>r. rv_restaurantId r = restaurantId) (db_reviews db)"

definition updateRestaurantRating :: "string \<Rightarrow> Database \<Rightarrow> Database" where
  "updateRestaurantRating restaurantId db =
     (let reviews = getReviewsByRestaurant db restaurantId;
          restaurants = db_restaurants db
      in case findIndex (\<lambda>r. r_id r = restaurantId) restaurants of
           None \<Rightarrow> db
         | Some restaurantIndex \<Rightarrow>
             (let totalReviews = length reviews;
                  avgRating = (if totalReviews > 0
                     then of_int (foldl (\<lambda>sum r. sum + rv_rating r) 0 reviews) / of_nat totalReviews
                     else 0)
              in db\<lparr> db_restaurants := restaurants[restaurantIndex :=
                       (restaurants ! restaurantIndex)\<lparr>
                          r_rating := of_int (Math_round (avgRating * 10)) / 10,
                          r_totalReviews := totalReviews \<rparr>] \<rparr>))"

definition Database_createReview ::
  "timestamp \<Rightarrow> timestamp \<Rightarrow> Review \<Rightarrow> Database \<Rightarrow> Review \<times> Database" where
  "Database_createReview now0 now1 review db =
     (let newReview = review\<lparr> rv_id := ''review-'' @ number_text now0, rv_createdAt := now1 \<rparr>;
          db1 = db\<lparr> db_reviews := db_reviews db @ [newReview] \<rparr>
      in (newReview, updateRestaurantRating (rv_restaurantId review) db1))"

definition Database_deleteReview :: "string \<Rightarrow> Database \<Rightarrow> bool \<times> Database" where
  "Database_deleteReview ident db =
     (case find (\<lambda>r. rv_id r = ident) (db_reviews db) of
        None \<Rightarrow> (False, db)
      | Some review \<Rightarrow>
          (let filtered = filter (\<lambda>r. rv_id r \<noteq> ident) (db_reviews db);
               db1 = db\<lparr> db_reviews := filtered \<rparr>
           in (True, updateRestaurantRating (rv_restaurantId review) db1)))"

definition Database_isFavourite :: "Database \<Rightarrow> string \<Rightarrow> string \<Rightarrow> bool" where
  "Database_isFavourite db userId restaurantId =
     some (\<lambda>f. f_userId f = userId \<and> f_restaurantId f = restaurantId) (db_favourites db)"

definition Database_toggleFavourite ::
  "timestamp \<Rightarrow> timestamp \<Rightarrow> string \<Rightarrow> string \<Rightarrow> Database \<Rightarrow> bool \<times> Database" where
  "Database_toggleFavourite now0 now1 userId restaurantId db =
     (let favourites = db_favourites db
      in case findIndex (\<lambda>f. f_userId f = userId \<and> f_restaurantId f = restaurantId) favourites of
           Some existingIndex \<Rightarrow>
             (False, db\<lparr> db_favourites := splice1 existingIndex favourites \<rparr>)
         | None \<Rightarrow>
             (let newFavourite = \<lparr> f_id = ''fav-'' @ number_text now0, f_userId = userId,
                     f_restaurantId = restaurantId, f_createdAt = now1, f_restaurant = None \<rparr>
              in (True, db\<lparr> db_favourites := favourites @ [newFavourite] \<rparr>)))"

section \<open>MockDatabase (\<^verbatim>\<open>class MockDatabase\<close> of \<^verbatim>\<open>database.ts\<close>)\<close>

datatype mock_restaurant_status = Approved | NotYetApproved

record MockRestaurant =
  mr_id :: string
  mr_ownerId :: string
  mr_name :: string
  mr_division :: string
  mr_city :: string
  mr_country :: string
  mr_address :: string
  mr_description :: string
  mr_image :: string
  mr_cuisine :: string
  mr_totalSeats :: int
  mr_rating :: rat
  mr_price :: string
  mr_status :: mock_restaurant_status
  mr_available :: bool
  mr_location :: string

record MockBooking =
  mb_id :: string
  mb_userId :: string
  mb_restaurantId :: string
  mb_date :: string
  mb_timeSlot :: string
  mb_guests :: int
  mb_status :: booking_status
  mb_createdAt :: timestamp
  mb_restaurantName :: "string option"
  mb_restaurantImage :: "string option"
  mb_time :: "string option"

record MockDatabase =
  md_restaurants :: "MockRestaurant list"
  md_bookings :: "MockBooking list"

definition getRestaurant :: "MockDatabase \<Rightarrow> string \<Rightarrow> MockRestaurant option" where
  "getRestaurant db ident = find (\<lambda>r. mr_id r = ident) (md_restaurants db)"

definition MockDatabase_getAvailableSeats ::
  "MockDatabase \<Rightarrow> string \<Rightarrow> string \<Rightarrow> string \<Rightarrow> int" where
  "MockDatabase_getAvailableSeats db restaurantId date timeSlot =
     (case getRestaurant db restaurantId of
        None \<Rightarrow> 0
      | Some restaurant \<Rightarrow>
          (let existingBookings = filter (\<lambda>b.
                  mb_restaurantId b = restaurantId \<and> mb_date b = date \<and>
                  mb_timeSlot b = timeSlot \<and> mb_status b = Confirmed) (md_bookings db);
               bookedSeats = foldl (\<lambda>sum b. sum + mb_guests b) 0 existingBookings
           in max 0 (mr_totalSeats restaurant - bookedSeats)))"

text \<open>
  \<^verbatim>\<open>createBooking\<close> returns either the new booking or the object
  \<^verbatim>\<open>{ error: 'Not enough seats available.' }\<close>, here \<open>Inl\<close> of the message. The id is
  drawn from \<^verbatim>\<open>Math.random()\<close> and is an argument.
\<close>

definition MockDatabase_createBooking ::
  "string \<Rightarrow> timestamp \<Rightarrow> MockBooking \<Rightarrow> MockDatabase \<Rightarrow> (string + MockBooking) \<times> MockDatabase" where
  "MockDatabase_createBooking randomId now booking db =
     (let available = MockDatabase_getAvailableSeats db (mb_restaurantId booking)
                        (mb_date booking) (mb_timeSlot booking)
      in if available < mb_guests booking
         then (Inl ''Not enough seats available.'', db)
         else (let restaurant = getRestaurant db (mb_restaurantId booking);
                   newBooking = booking\<lparr> mb_id := randomId, mb_status := Confirmed,
                      mb_createdAt := now,
                      mb_restaurantName := map_option mr_name restaurant,
                      mb_restaurantImage := map_option mr_image restaurant,
                      mb_time := Some (mb_timeSlot booking) \<rparr>
               in (Inr newBooking, db\<lparr> md_bookings := md_bookings db @ [newBooking] \<rparr>)))"

definition MockDatabase_cancelBooking :: "string \<Rightarrow> MockDatabase \<Rightarrow> MockDatabase" where
  "MockDatabase_cancelBooking bookingId db =
     (case findIndex (\<lambda>b. mb_id b = bookingId) (md_bookings db) of
        None \<Rightarrow> db
      | Some i \<Rightarrow> db\<lparr> md_bookings := (md_bookings db)[i :=
                       (md_bookings db ! i)\<lparr> mb_status := Cancelled \<rparr>] \<rparr>)"

section \<open>Services (fallback paths)\<close>

text \<open>
  Each service method is \<^verbatim>\<open>try { remote call } catch { fallback }\<close>. The definitions below
  are the bodies of the catch blocks, run when the remote call fails (a catch block that
  calls another service method reaches that method's catch block too, the remote service
  staying unreachable). The stored user (\<^verbatim>\<open>authService.getStoredUser()\<close>), the seed arrays of
  \<^verbatim>\<open>demo-data.ts\<close> and the clock reads are arguments. A method that writes returns its
  result together with the \<^verbatim>\<open>localStorage\<close> entry it leaves behind; a thrown error is \<open>Inl\<close>.
\<close>

text \<open>\<^verbatim>\<open>Array.prototype.sort\<close> with the comparator
  \<^verbatim>\<open>(a, b) => new Date(b.createdAt).getTime() - new Date(a.createdAt).getTime()\<close>:
  a stable sort, newest first.\<close>

definition sortNewestFirst :: "('a \<Rightarrow> timestamp) \<Rightarrow> 'a list \<Rightarrow> 'a list" where
  "sortNewestFirst createdAt xs = sort_key (\<lambda>x. - createdAt x) xs"

subsection \<open>BookingService\<close>

record CreateBookingData =
  cb_restaurantId :: string
  cb_date :: string
  cb_timeSlot :: string
  cb_seats :: int
  cb_customerName :: string
  cb_customerEmail :: string
  cb_customerPhone :: string
  cb_specialRequests :: "string option"

definition getAllLocalBookings :: "Booking slot \<Rightarrow> Booking list" where
  "getAllLocalBookings store = (case store of Stored bookings \<Rightarrow> bookings | _ \<Rightarrow> [])"

definition saveAllLocalBookings :: "Booking list \<Rightarrow> Booking slot" where
  "saveAllLocalBookings bookings = Stored bookings"

definition saveDemoBooking :: "Booking \<Rightarrow> Booking slot \<Rightarrow> Booking slot" where
  "saveDemoBooking booking store = saveAllLocalBookings (getAllLocalBookings store @ [booking])"

definition getLocalBookingsByUserId :: "Booking slot \<Rightarrow> string \<Rightarrow> Booking list" where
  "getLocalBookingsByUserId store userId =
     filter (\<lambda>b. b_userId b = userId) (getAllLocalBookings store)"

definition getDemoBookingsByUserId :: "Booking list \<Rightarrow> string \<Rightarrow> Booking list" where
  "getDemoBookingsByUserId DEMO_BOOKINGS userId =
     filter (\<lambda>booking. b_userId booking = userId) DEMO_BOOKINGS"

definition BookingService_createBooking ::
  "User option \<Rightarrow> Restaurant list \<Rightarrow> timestamp \<Rightarrow> timestamp \<Rightarrow> timestamp \<Rightarrow>
   CreateBookingData \<Rightarrow> Booking slot \<Rightarrow> (error + Booking) \<times> Booking slot" where
  "BookingService_createBooking user DEMO_RESTAURANTS now0 now1 now2 data store =
     (case user of
        None \<Rightarrow> (Inl NotLoggedIn, store)
      | Some u \<Rightarrow>
          (case find (\<lambda>r. r_id r = cb_restaurantId data) DEMO_RESTAURANTS of
             None \<Rightarrow> (Inl RestaurantNotFound, store)
           | Some restaurant \<Rightarrow>
               (let newBooking = \<lparr>
                      b_id = ''booking-demo-'' @ number_text now0,
                      b_restaurantId = cb_restaurantId data,
                      b_userId = u_id u,
                      b_date = cb_date data,
                      b_timeSlot = cb_timeSlot data,
                      b_seats = cb_seats data,
                      b_status = Pending,
                      b_customerName = cb_customerName data,
                      b_customerEmail = cb_customerEmail data,
                      b_customerPhone = cb_customerPhone data,
                      b_specialRequests = cb_specialRequests data,
                      b_createdAt = now1,
                      b_updatedAt = now2,
                      b_restaurant = Some \<lparr> br_id = r_id restaurant, br_name = r_name restaurant,
                         br_image = r_image restaurant, br_location = r_location restaurant \<rparr> \<rparr>
                in (Inr newBooking, saveDemoBooking newBooking store))))"

definition BookingService_getMyBookings ::
  "User option \<Rightarrow> Booking list \<Rightarrow> Booking slot \<Rightarrow> Booking list" where
  "BookingService_getMyBookings user DEMO_BOOKINGS store =
     (case user of
        None \<Rightarrow> []
      | Some u \<Rightarrow>
          (let demoBookings = getDemoBookingsByUserId DEMO_BOOKINGS (u_id u);
               localBookings = getLocalBookingsByUserId store (u_id u);
               allBookings = demoBookings @ localBookings
           in sortNewestFirst b_createdAt allBookings))"

definition BookingService_cancelBooking ::
  "timestamp \<Rightarrow> string \<Rightarrow> Booking slot \<Rightarrow> (error + Booking) \<times> Booking slot" where
  "BookingService_cancelBooking now ident store =
     (let localBookings = getAllLocalBookings store
      in case findIndex (\<lambda>b. b_id b = ident) localBookings of
           None \<Rightarrow> (Inl BookingNotFound, store)
         | Some bookingIndex \<Rightarrow>
             (let updated = localBookings[bookingIndex :=
                     (localBookings ! bookingIndex)\<lparr> b_status := Cancelled, b_updatedAt := now \<rparr>]
              in (Inr (updated ! bookingIndex), saveAllLocalBookings updated)))"

text \<open>The \<^verbatim>\<open>status\<close> filter of a list query is a string compared with the status field.\<close>

fun status_name :: "booking_status \<Rightarrow> string" where
  "status_name Pending = ''pending''"
| "status_name Confirmed = ''confirmed''"
| "status_name Completed = ''completed''"
| "status_name Cancelled = ''cancelled''"

record BookingFilters =
  bf_status :: "string option"
  bf_date :: "string option"

text \<open>\<^verbatim>\<open>if (filters?.status)\<close>: a missing field and the empty string are both falsy.\<close>

definition given :: "string option \<Rightarrow> bool" where
  "given field = (case field of None \<Rightarrow> False | Some s \<Rightarrow> s \<noteq> [])"

definition BookingService_getRestaurantBookings ::
  "Booking list \<Rightarrow> Booking slot \<Rightarrow> string \<Rightarrow> BookingFilters option \<Rightarrow> Booking list" where
  "BookingService_getRestaurantBookings DEMO_BOOKINGS store restaurantId filters =
     (let allBookings = DEMO_BOOKINGS @ getAllLocalBookings store;
          restaurantBookings = filter (\<lambda>b. b_restaurantId b = restaurantId) allBookings;
          status = Option.bind filters bf_status;
          restaurantBookings1 = (if given status
             then filter (\<lambda>b. Some (status_name (b_status b)) = status) restaurantBookings
             else restaurantBookings);
          date = Option.bind filters bf_date;
          restaurantBookings2 = (if given date
             then filter (\<lambda>b. Some (b_date b) = date) restaurantBookings1
             else restaurantBookings1)
      in restaurantBookings2)"

definition BookingService_updateBookingStatus ::
  "timestamp \<Rightarrow> string \<Rightarrow> booking_status \<Rightarrow> Booking slot \<Rightarrow> (error + Booking) \<times> Booking slot" where
  "BookingService_updateBookingStatus now ident status store =
     (let localBookings = getAllLocalBookings store
      in case findIndex (\<lambda>b. b_id b = ident) localBookings of
           None \<Rightarrow> (Inl BookingNotFound, store)
         | Some bookingIndex \<Rightarrow>
             (let updated = localBookings[bookingIndex :=
                     (localBookings ! bookingIndex)\<lparr> b_status := status, b_updatedAt := now \<rparr>]
              in (Inr (updated ! bookingIndex), saveAllLocalBookings updated)))"

subsection \<open>ReviewService\<close>

definition getAllLocalReviews :: "Review slot \<Rightarrow> Review list" where
  "getAllLocalReviews store = (case store of Stored reviews \<Rightarrow> reviews | _ \<Rightarrow> [])"

definition saveAllLocalReviews :: "Review list \<Rightarrow> Review slot" where
  "saveAllLocalReviews reviews = Stored reviews"

definition ReviewService_deleteReview ::
  "string \<Rightarrow> Review slot \<Rightarrow> (error + unit) \<times> Review slot" where
  "ReviewService_deleteReview ident store =
     (let localReviews = getAllLocalReviews store;
          filteredReviews = filter (\<lambda>r. rv_id r \<noteq> ident) localReviews
      in if length filteredReviews = length localReviews
         then (Inl ReviewNotFound, store)
         else (Inr (), saveAllLocalReviews filteredReviews))"

definition getLocalReviewsByRestaurantId :: "Review slot \<Rightarrow> string \<Rightarrow> Review list" where
  "getLocalReviewsByRestaurantId store restaurantId =
     filter (\<lambda>r. rv_restaurantId r = restaurantId) (getAllLocalReviews store)"

definition getDemoReviewsByRestaurantId :: "Review list \<Rightarrow> string \<Rightarrow> Review list" where
  "getDemoReviewsByRestaurantId DEMO_REVIEWS restaurantId =
     filter (\<lambda>review. rv_restaurantId review = restaurantId) DEMO_REVIEWS"

definition ReviewService_getRestaurantReviews ::
  "Review list \<Rightarrow> Review slot \<Rightarrow> string \<Rightarrow> Review list" where
  "ReviewService_getRestaurantReviews DEMO_REVIEWS store restaurantId =
     (let demoReviews = getDemoReviewsByRestaurantId DEMO_REVIEWS restaurantId;
          localReviews = getLocalReviewsByRestaurantId store restaurantId;
          allReviews = demoReviews @ localReviews
      in sortNewestFirst rv_createdAt allReviews)"

subsection \<open>RestaurantService\<close>

text \<open>
  \<^verbatim>\<open>getAvailableSeats\<close> answers, in demo mode, with a random number between 50% and 90% of
  the capacity; \<open>random\<close> is the value of \<^verbatim>\<open>Math.random()\<close>, in \<open>[0, 1)\<close>.
\<close>

definition RestaurantService_getAvailableSeats ::
  "Restaurant list \<Rightarrow> rat \<Rightarrow> string \<Rightarrow> string \<Rightarrow> string \<Rightarrow> error + int" where
  "RestaurantService_getAvailableSeats DEMO_RESTAURANTS random restaurantId date timeSlot =
     (case find (\<lambda>r. r_id r = restaurantId) DEMO_RESTAURANTS of
        None \<Rightarrow> Inl RestaurantNotFound
      | Some restaurant \<Rightarrow>
          (let minAvailable = \<lfloor>of_int (r_totalSeats restaurant) * (1 / 2 :: rat)\<rfloor>;
               maxAvailable = \<lfloor>of_int (r_totalSeats restaurant) * (9 / 10 :: rat)\<rfloor>;
               availableSeats = \<lfloor>random * of_int (maxAvailable - minAvailable + 1)\<rfloor> + minAvailable
           in Inr availableSeats))"

subsection \<open>FavouriteService\<close>

definition getAllLocalFavourites :: "Favourite slot \<Rightarrow> Favourite list" where
  "getAllLocalFavourites store = (case store of Stored favourites \<Rightarrow> favourites | _ \<Rightarrow> [])"

definition saveAllLocalFavourites :: "Favourite list \<Rightarrow> Favourite slot" where
  "saveAllLocalFavourites favourites = Stored favourites"

definition saveDemoFavourite :: "Favourite \<Rightarrow> Favourite slot \<Rightarrow> Favourite slot" where
  "saveDemoFavourite favourite store =
     saveAllLocalFavourites (getAllLocalFavourites store @ [favourite])"

definition isDemoFavourite :: "Favourite list \<Rightarrow> string \<Rightarrow> string \<Rightarrow> bool" where
  "isDemoFavourite DEMO_FAVOURITES userId restaurantId =
     some (\<lambda>fav. f_userId fav = userId \<and> f_restaurantId fav = restaurantId) DEMO_FAVOURITES"

definition FavouriteService_addFavourite ::
  "User option \<Rightarrow> Restaurant list \<Rightarrow> timestamp \<Rightarrow> timestamp \<Rightarrow> string \<Rightarrow> Favourite slot \<Rightarrow>
   (error + Favourite) \<times> Favourite slot" where
  "FavouriteService_addFavourite user DEMO_RESTAURANTS now0 now1 restaurantId store =
     (case user of
        None \<Rightarrow> (Inl NotLoggedIn, store)
      | Some u \<Rightarrow>
          (let localFavourites = getAllLocalFavourites store;
               alreadyFavourited = some (\<lambda>f. f_userId f = u_id u \<and> f_restaurantId f = restaurantId)
                                     localFavourites
           in if alreadyFavourited then (Inl AlreadyFavourited, store)
              else (case find (\<lambda>r. r_id r = restaurantId) DEMO_RESTAURANTS of
                      None \<Rightarrow> (Inl RestaurantNotFound, store)
                    | Some restaurant \<Rightarrow>
                        (let newFavourite = \<lparr>
                               f_id = ''fav-demo-'' @ number_text now0,
                               f_userId = u_id u,
                               f_restaurantId = restaurantId,
                               f_createdAt = now1,
                               f_restaurant = Some \<lparr> fr_id = r_id restaurant,
                                  fr_name = r_name restaurant, fr_cuisine = r_cuisine restaurant,
                                  fr_image = r_image restaurant, fr_rating = r_rating restaurant,
                                  fr_location = r_location restaurant,
                                  fr_priceRange = r_priceRange restaurant \<rparr> \<rparr>
                         in (Inr newFavourite, saveDemoFavourite newFavourite store)))))"

definition FavouriteService_removeFavourite ::
  "User option \<Rightarrow> string \<Rightarrow> Favourite slot \<Rightarrow> (error + unit) \<times> Favourite slot" where
  "FavouriteService_removeFavourite user restaurantId store =
     (case user of
        None \<Rightarrow> (Inl NotLoggedIn, store)
      | Some u \<Rightarrow>
          (let localFavourites = getAllLocalFavourites store;
               filteredFavourites = filter
                  (\<lambda>f. \<not> (f_userId f = u_id u \<and> f_restaurantId f = restaurantId)) localFavourites
           in (Inr (), saveAllLocalFavourites filteredFavourites)))"

definition FavouriteService_isFavourite ::
  "User option \<Rightarrow> Favourite list \<Rightarrow> Favourite slot \<Rightarrow> string \<Rightarrow> bool" where
  "FavouriteService_isFavourite user DEMO_FAVOURITES store restaurantId =
     (case user of
        None \<Rightarrow> False
      | Some u \<Rightarrow>
          (let inDemoFavourites = isDemoFavourite DEMO_FAVOURITES (u_id u) restaurantId
           in if inDemoFavourites then True
              else some (\<lambda>f. f_userId f = u_id u \<and> f_restaurantId f = restaurantId)
                     (getAllLocalFavourites store)))"

text \<open>The result object \<^verbatim>\<open>{ isFavourite: b }\<close> is the boolean \<open>b\<close>.\<close>

definition FavouriteService_toggleFavourite ::
  "User option \<Rightarrow> Favourite list \<Rightarrow> Restaurant list \<Rightarrow> timestamp \<Rightarrow> timestamp \<Rightarrow> string \<Rightarrow>
   Favourite slot \<Rightarrow> (error + bool) \<times> Favourite slot" where
  "FavouriteService_toggleFavourite user DEMO_FAVOURITES DEMO_RESTAURANTS now0 now1 restaurantId store =
     (let isFav = FavouriteService_isFavourite user DEMO_FAVOURITES store restaurantId
      in if isFav
         then (case FavouriteService_removeFavourite user restaurantId store of
                 (Inl e, store') \<Rightarrow> (Inl e, store')
               | (Inr _, store') \<Rightarrow> (Inr False, store'))
         else (case FavouriteService_addFavourite user DEMO_RESTAURANTS now0 now1 restaurantId store of
                 (Inl e, store') \<Rightarrow> (Inl e, store')
               | (Inr _, store') \<Rightarrow> (Inr True, store')))"

section \<open>Notions of the specification\<close>

text \<open>
  The rating the specification prescribes for a list of star ratings: the mean, times ten,
  rounded to the nearest integer, divided by ten; zero for no review.
\<close>

definition spec_rating :: "int list \<Rightarrow> rat" where
  "spec_rating ratings =
     (if ratings = [] then 0
      else of_int (round (of_int (sum_list ratings) / of_nat (length ratings) * 10 :: rat)) / 10)"



text \<open>
  Two restaurant arrays differ at most in the \<^verbatim>\<open>rating\<close> and \<^verbatim>\<open>totalReviews\<close> fields of the
  first restaurant carrying the id.
\<close>

definition only_rating_changed :: "string \<Rightarrow> Restaurant list \<Rightarrow> Restaurant list \<Rightarrow> bool" where
  "only_rating_changed restaurantId rs rs' \<longleftrightarrow>
     length rs' = length rs \<and>
     list_all (\<lambda>i. rs' ! i = rs ! i \<or>
        (findIndex (\<lambda>r. r_id r = restaurantId) rs = Some i \<and>
         rs' ! i = (rs ! i)\<lparr> r_rating := r_rating (rs' ! i),
                              r_totalReviews := r_totalReviews (rs' ! i) \<rparr>))
       [0..<length rs]"

text \<open>
  The seats held in a slot as the specification counts them: the sum of \<^verbatim>\<open>seats\<close> over the
  bookings of the restaurant, date and time slot whose status is pending or confirmed.
  \<open>confirmedGuests\<close> is the sum that \<^verbatim>\<open>MockDatabase\<close> uses, over confirmed bookings only.
\<close>

definition activeSeats :: "Booking list \<Rightarrow> string \<Rightarrow> string \<Rightarrow> string \<Rightarrow> int" where
  "activeSeats bookings R D S =
     sum_list (map b_seats (filter (\<lambda>b. b_restaurantId b = R \<and> b_date b = D \<and>
        b_timeSlot b = S \<and> b_status b \<in> {Pending, Confirmed}) bookings))"

definition confirmedGuests :: "MockBooking list \<Rightarrow> string \<Rightarrow> string \<Rightarrow> string \<Rightarrow> int" where
  "confirmedGuests bookings R D S =
     sum_list (map mb_guests (filter (\<lambda>b. mb_restaurantId b = R \<and> mb_date b = D \<and>
        mb_timeSlot b = S \<and> mb_status b = Confirmed) bookings))"

text \<open>
  The records the local overlay holds under one key: those of the stored array, none when
  the entry is missing or unreadable.
\<close>

definition overlayRecords :: "'a slot \<Rightarrow> 'a list" where
  "overlayRecords store = (case store of Stored records \<Rightarrow> records | Absent \<Rightarrow> [] | Corrupt \<Rightarrow> [])"

text \<open>The records a restaurant's booking query selects, given its optional filters.\<close>

definition matchesFilters :: "string \<Rightarrow> BookingFilters option \<Rightarrow> Booking \<Rightarrow> bool" where
  "matchesFilters restaurantId filters b \<longleftrightarrow>
     b_restaurantId b = restaurantId \<and>
     (given (Option.bind filters bf_status) \<longrightarrow>
        Some (status_name (b_status b)) = Option.bind filters bf_status) \<and>
     (given (Option.bind filters bf_date) \<longrightarrow>
        Some (b_date b) = Option.bind filters bf_date)"

text \<open>A list is ordered newest first: no element is older than one that follows it.\<close>

definition newestFirst :: "('a \<Rightarrow> timestamp) \<Rightarrow> 'a list \<Rightarrow> bool" where
  "newestFirst createdAt xs = sorted_wrt (\<lambda>a b. createdAt b \<le> createdAt a) xs"

section \<open>Concrete records used by the examples\<close>

text \<open>
  The first two seed restaurants and reviews of \<^verbatim>\<open>getInitialRestaurants\<close> and
  \<^verbatim>\<open>getInitialReviews\<close>; long free-text fields are abbreviated.
\<close>

definition aurora :: Restaurant where
  "aurora = \<lparr> r_id = ''rest-1'', r_name = ''Aurora'', r_cuisine = ''Continental'',
     r_location = ''Shaheb Bazar, Rajshahi'', r_city = ''Rajshahi'', r_division = ''Rajshahi'',
     r_country = ''Bangladesh'', r_description = ''Premium continental dining'',
     r_image = ''aurora.jpg'', r_rating = 24 / 5, r_totalReviews = 124,
     r_openingTime = ''11:00 AM'', r_closingTime = ''11:00 PM'', r_totalSeats = 50,
     r_priceRange = ''high'', r_phone = ''+880 1711-123456'', r_managerId = None,
     r_status = Active, r_createdAt = 1760000000000 \<rparr>"

definition helium :: Restaurant where
  "helium = \<lparr> r_id = ''rest-2'', r_name = ''Helium'', r_cuisine = ''Fusion'',
     r_location = ''Alokar Mor, Rajshahi'', r_city = ''Rajshahi'', r_division = ''Rajshahi'',
     r_country = ''Bangladesh'', r_description = ''Fusion dining'',
     r_image = ''helium.jpg'', r_rating = 23 / 5, r_totalReviews = 89,
     r_openingTime = ''12:00 PM'', r_closingTime = ''10:30 PM'', r_totalSeats = 40,
     r_priceRange = ''medium'', r_phone = ''+880 1711-123457'', r_managerId = None,
     r_status = Active, r_createdAt = 1760000000000 \<rparr>"

definition rev_1 :: Review where
  "rev_1 = \<lparr> rv_id = ''rev-1'', rv_restaurantId = ''rest-1'', rv_userId = ''customer-1'',
     rv_userName = ''Sarah Ahmed'', rv_userImage = None, rv_rating = 5,
     rv_comment = ''Absolutely loved the ambiance'', rv_createdAt = 1770748200000,
     rv_restaurant = None \<rparr>"

definition rev_2 :: Review where
  "rev_2 = \<lparr> rv_id = ''rev-2'', rv_restaurantId = ''rest-1'', rv_userId = ''customer-2'',
     rv_userName = ''Mahmud Hasan'', rv_userImage = None, rv_rating = 4,
     rv_comment = ''Great continental food'', rv_createdAt = 1770925500000,
     rv_restaurant = None \<rparr>"

definition new_review :: Review where
  "new_review = \<lparr> rv_id = [], rv_restaurantId = ''rest-1'', rv_userId = ''customer-3'',
     rv_userName = ''Tasnia Rahman'', rv_userImage = None, rv_rating = 5,
     rv_comment = ''Lovely'', rv_createdAt = 0, rv_restaurant = None \<rparr>"

definition db0 :: Database where
  "db0 = \<lparr> db_restaurants = [aurora, helium], db_bookings = [],
     db_reviews = [rev_1, rev_2], db_favourites = [] \<rparr>"

text \<open>
  A store that also holds the third seed review, written for another restaurant; and the
  stores reached when two reviews, one for \<^verbatim>\<open>rest-1\<close> and one for \<^verbatim>\<open>rest-2\<close>, are created
  within the same millisecond (both get the id \<^verbatim>\<open>review-1771000000000\<close>) and that id is
  then deleted.
\<close>

definition rev_3 :: Review where
  "rev_3 = \<lparr> rv_id = ''rev-3'', rv_restaurantId = ''rest-4'', rv_userId = ''customer-3'',
     rv_userName = ''Tasnia Rahman'', rv_userImage = None, rv_rating = 5,
     rv_comment = ''Best burgers in Rajshahi'', rv_createdAt = 1771100100000,
     rv_restaurant = None \<rparr>"

definition db2 :: Database where
  "db2 = db0\<lparr> db_reviews := [rev_1, rev_2, rev_3] \<rparr>"




definition review_a :: Review where
  "review_a = \<lparr> rv_id = ''review-demo-1700000000000'', rv_restaurantId = ''rest-1'',
     rv_userId = ''user-customer-1'', rv_userName = ''Rakib Hassan'', rv_userImage = None,
     rv_rating = 4, rv_comment = ''Good'', rv_createdAt = 1700000000000,
     rv_restaurant = None \<rparr>"

text \<open>
  More records for the examples: the first seed restaurant of \<^verbatim>\<open>DEMO_RESTAURANTS\<close>, a
  pending booking of four seats, and the first restaurant and booking of \<^verbatim>\<open>MockDatabase\<close>.
\<close>

definition demo_aurora :: Restaurant where
  "demo_aurora = aurora\<lparr> r_managerId := Some ''user-manager-1'', r_createdAt := 1698796800000 \<rparr>"

definition booking_4 :: Booking where
  "booking_4 = \<lparr> b_id = ''booking-1772000000000'', b_restaurantId = ''rest-1'',
     b_userId = ''customer-1'', b_date = ''2026-03-01'', b_timeSlot = ''7:00 PM'',
     b_seats = 4, b_status = Pending, b_customerName = ''Demo Customer'',
     b_customerEmail = ''customer@test.com'', b_customerPhone = ''+880 1711-999001'',
     b_specialRequests = None, b_createdAt = 1772000000000, b_updatedAt = 1772000000000,
     b_restaurant = None \<rparr>"

definition db1 :: Database where
  "db1 = db0\<lparr> db_bookings := [booking_4] \<rparr>"

definition mock_aurora :: MockRestaurant where
  "mock_aurora = \<lparr> mr_id = ''1'', mr_ownerId = ''2'', mr_name = ''Aurora'',
     mr_division = ''Rajshahi'', mr_city = ''Rajshahi'', mr_country = ''Bangladesh'',
     mr_address = ''Shaheb Bazar, Rajshahi'', mr_description = ''Fine dining'',
     mr_image = ''aurora.jpg'', mr_cuisine = ''Fine Dining'', mr_totalSeats = 60,
     mr_rating = 49 / 10, mr_price = ''$$$$'', mr_status = Approved, mr_available = True,
     mr_location = ''Shaheb Bazar, Rajshahi'' \<rparr>"

definition mock_b1 :: MockBooking where
  "mock_b1 = \<lparr> mb_id = ''b1'', mb_userId = ''1'', mb_restaurantId = ''1'',
     mb_date = ''2026-03-01'', mb_timeSlot = ''6:00 PM - 8:00 PM'', mb_guests = 4,
     mb_status = Confirmed, mb_createdAt = 1772000000000,
     mb_restaurantName = Some ''Aurora'', mb_restaurantImage = Some ''aurora.jpg'',
     mb_time = Some ''6:00 PM - 8:00 PM'' \<rparr>"

definition mdb0 :: MockDatabase where
  "mdb0 = \<lparr> md_restaurants = [mock_aurora], md_bookings = [mock_b1] \<rparr>"

text \<open>
  A stored user, a request for thirty seats as each \<^verbatim>\<open>createBooking\<close> takes it, the overlay
  and the database after two such requests, a request to \<^verbatim>\<open>MockDatabase\<close>, and an overlay
  booking that has reached the status completed.
\<close>

definition customer :: User where
  "customer = \<lparr> u_id = ''user-customer-1'', u_email = ''customer@demo.com'',
     u_name = ''Rakib Hassan'', u_role = Customer, u_profileImage = None,
     u_phone = Some ''+880 1711-999001'', u_createdAt = 1704067200000 \<rparr>"

definition data30 :: CreateBookingData where
  "data30 = \<lparr> cb_restaurantId = ''rest-1'', cb_date = ''2026-03-01'', cb_timeSlot = ''7:00 PM'',
     cb_seats = 30, cb_customerName = ''Rakib Hassan'', cb_customerEmail = ''customer@demo.com'',
     cb_customerPhone = ''+880 1711-999001'', cb_specialRequests = None \<rparr>"

definition request30 :: Booking where
  "request30 = booking_4\<lparr> b_id := [], b_seats := 30, b_createdAt := 0, b_updatedAt := 0 \<rparr>"

definition overlay_after_two :: "Booking slot" where
  "overlay_after_two =
     snd (BookingService_createBooking (Some customer) [demo_aurora]
            1772000060000 1772000060000 1772000060000 data30
       (snd (BookingService_createBooking (Some customer) [demo_aurora]
            1772000000000 1772000000000 1772000000000 data30 Absent)))"

definition db_after_two :: Database where
  "db_after_two =
     snd (Database_createBooking 1772000060000 1772000060000 1772000060000 request30
       (snd (Database_createBooking 1772000000000 1772000000000 1772000000000 request30 db0)))"


definition done_booking :: Booking where
  "done_booking = \<lparr> b_id = ''booking-demo-1772000000000'', b_restaurantId = ''rest-1'',
     b_userId = ''user-customer-1'', b_date = ''2026-03-01'', b_timeSlot = ''7:00 PM'',
     b_seats = 4, b_status = Completed, b_customerName = ''Rakib Hassan'',
     b_customerEmail = ''customer@demo.com'', b_customerPhone = ''+880 1711-999001'',
     b_specialRequests = None, b_createdAt = 1772000000000, b_updatedAt = 1772400000000,
     b_restaurant = None \<rparr>"

text \<open>
  The first seed booking of \<^verbatim>\<open>DEMO_BOOKINGS\<close>, the second seed review of \<^verbatim>\<open>DEMO_REVIEWS\<close> and
  the first seed favourite of \<^verbatim>\<open>DEMO_FAVOURITES\<close>.
\<close>

definition seed_booking_1 :: Booking where
  "seed_booking_1 = \<lparr> b_id = ''booking-1'', b_restaurantId = ''rest-1'',
     b_userId = ''user-customer-1'', b_date = ''2024-02-25'', b_timeSlot = ''7:00 PM'',
     b_seats = 4, b_status = Confirmed, b_customerName = ''Rakib Hassan'',
     b_customerEmail = ''customer@demo.com'', b_customerPhone = ''+880 1711-999001'',
     b_specialRequests = Some ''Window seat please'', b_createdAt = 1707523200000,
     b_updatedAt = 1707523200000,
     b_restaurant = Some \<lparr> br_id = ''rest-1'', br_name = ''Aurora'', br_image = ''aurora.jpg'',
        br_location = ''Shaheb Bazar, Rajshahi'' \<rparr> \<rparr>"

definition seed_review_2 :: Review where
  "seed_review_2 = \<lparr> rv_id = ''review-2'', rv_restaurantId = ''rest-1'',
     rv_userId = ''user-customer-2'', rv_userName = ''Fatima Ahmed'', rv_userImage = None,
     rv_rating = 4, rv_comment = ''Great ambiance'', rv_createdAt = 1706400000000,
     rv_restaurant = Some \<lparr> rr_id = ''rest-1'', rr_name = ''Aurora'', rr_image = ''aurora.jpg'' \<rparr> \<rparr>"

definition seed_booking_4 :: Booking where
  "seed_booking_4 = \<lparr> b_id = ''booking-4'', b_restaurantId = ''rest-9'',
     b_userId = ''user-customer-2'', b_date = ''2024-02-23'', b_timeSlot = ''7:30 PM'',
     b_seats = 5, b_status = Confirmed, b_customerName = ''Fatima Ahmed'',
     b_customerEmail = ''customer2@demo.com'', b_customerPhone = ''+880 1711-999002'',
     b_specialRequests = Some ''Outdoor seating if available'', b_createdAt = 1707696000000,
     b_updatedAt = 1707782400000,
     b_restaurant = Some \<lparr> br_id = ''rest-9'', br_name = ''Backyard Kitchen'',
        br_image = ''backyard.jpg'', br_location = ''Boalia, Rajshahi'' \<rparr> \<rparr>"

definition seed_review_3 :: Review where
  "seed_review_3 = \<lparr> rv_id = ''review-3'', rv_restaurantId = ''rest-3'',
     rv_userId = ''user-customer-1'', rv_userName = ''Rakib Hassan'', rv_userImage = None,
     rv_rating = 5, rv_comment = ''Best Italian restaurant'', rv_createdAt = 1707091200000,
     rv_restaurant = Some \<lparr> rr_id = ''rest-3'', rr_name = ''Calisto'', rr_image = ''calisto.jpg'' \<rparr> \<rparr>"

text \<open>
  The overlay after two fallback bookings of two seats each, created within the same
  millisecond: both carry the id \<^verbatim>\<open>booking-demo-1772000000000\<close>.
\<close>

definition data2 :: CreateBookingData where
  "data2 = data30\<lparr> cb_seats := 2 \<rparr>"

definition overlay_same_ms :: "Booking slot" where
  "overlay_same_ms =
     snd (BookingService_createBooking (Some customer) [demo_aurora]
            1772000000000 1772000000000 1772000000000 data2
       (snd (BookingService_createBooking (Some customer) [demo_aurora]
            1772000000000 1772000000000 1772000000000 data2 Absent)))"

definition fav_1 :: Favourite where
  "fav_1 = \<lparr> f_id = ''fav-1'', f_userId = ''user-customer-1'', f_restaurantId = ''rest-1'',
     f_createdAt = 1705708800000,
     f_restaurant = Some \<lparr> fr_id = ''rest-1'', fr_name = ''Aurora'', fr_cuisine = ''Continental'',
        fr_image = ''aurora.jpg'', fr_rating = 24 / 5, fr_location = ''Shaheb Bazar, Rajshahi'',
        fr_priceRange = ''high'' \<rparr> \<rparr>"

section \<open>Properties\<close>

subsection \<open>Deleting a review that the overlay does not hold\<close>

lemma filter_length_eq_iff:
  "length (filter P xs) = length xs \<longleftrightarrow> (\<forall>x\<in>set xs. P x)"
proof (induction xs)
  case Nil
  show ?case by simp
next
  case (Cons x xs)
  have "length (filter P xs) \<le> length xs"
    by (rule length_filter_le)
  then have "length (filter P xs) \<noteq> Suc (length xs)"
    by arith
  with Cons show ?case by auto
qed

text \<open>
  C10. On the fallback path \<^verbatim>\<open>deleteReview\<close> with an id that no review of the local
  overlay carries fails with 'Review not found', and the overlay entry is left exactly
  as it was (also when the entry is missing or unparsable).
\<close>

theorem C10_deleteReview_missing_unchanged:
  assumes "ident \<notin> rv_id ` set (getAllLocalReviews store)"
  shows "ReviewService_deleteReview ident store = (Inl ReviewNotFound, store)"
proof -
  have "\<forall>r\<in>set (getAllLocalReviews store). rv_id r \<noteq> ident"
    using assms by auto
  then have "length (filter (\<lambda>r. rv_id r \<noteq> ident) (getAllLocalReviews store))
      = length (getAllLocalReviews store)"
    by (simp add: filter_length_eq_iff)
  then show ?thesis
    by (simp add: ReviewService_deleteReview_def Let_def)
qed

theorem C10_deleteReview_missing_unchanged_witness:
  "''review-demo-42'' \<notin> rv_id ` set (getAllLocalReviews (Stored [review_a]))
   \<and> ReviewService_deleteReview ''review-demo-42'' (Stored [review_a])
       = (Inl ReviewNotFound, Stored [review_a])"
  using C10_deleteReview_missing_unchanged [of "''review-demo-42''" "Stored [review_a]"]
  by (simp add: getAllLocalReviews_def review_a_def)

subsection \<open>Array helpers\<close>

lemma findIndex_SomeD:
  "findIndex P xs = Some i \<Longrightarrow> i < length xs \<and> P (xs ! i) \<and> (\<forall>j<i. \<not> P (xs ! j))"
proof (induction xs arbitrary: i)
  case Nil
  then show ?case by simp
next
  case (Cons x xs)
  show ?case
  proof (cases "P x")
    case True
    with Cons.prems show ?thesis by simp
  next
    case False
    with Cons.prems obtain k where k: "findIndex P xs = Some k" "i = Suc k"
      by auto
    from Cons.IH[OF k(1)] False k(2) show ?thesis
      by (auto simp: nth_Cons split: nat.splits)
  qed
qed

lemma find_findIndex:
  "find P xs = (case findIndex P xs of None \<Rightarrow> None | Some i \<Rightarrow> Some (xs ! i))"
  by (induction xs) (auto split: option.splits)

lemma findIndex_None_iff: "findIndex P xs = None \<longleftrightarrow> (\<forall>x\<in>set xs. \<not> P x)"
  by (induction xs) auto

lemma find_update_at_findIndex:
  assumes "findIndex P xs = Some i" and "P y"
  shows "find P (xs[i := y]) = Some y"
  using assms
proof (induction xs arbitrary: i)
  case Nil
  then show ?case by simp
next
  case (Cons x xs)
  then show ?case
    by (cases "P x") auto
qed

lemma foldl_add_sum_list:
  "foldl (\<lambda>sum x. sum + f x) a xs = a + sum_list (map f xs)" for a :: "'a::monoid_add"
  by (induction xs arbitrary: a) (simp_all add: add.assoc)

lemma Math_round_eq_round: "Math_round x = round x"
  by (simp add: Math_round_def round_def)


subsection \<open>Evaluating the examples\<close>

lemma floor_rat_numeral:
  "\<lfloor>(numeral a :: rat) / numeral b\<rfloor> = numeral a div numeral b"
  using floor_divide_of_int_eq [where ?'a = rat, of "numeral a" "numeral b"] by simp

lemma example_ids [simp]:
  "r_id aurora = ''rest-1''" "r_id helium = ''rest-2''"
  by (simp_all add: aurora_def helium_def)

lemma db0_after_create:
  "snd (Database_createReview 1771000000000 1771000000001 new_review db0) =
     \<lparr> db_restaurants = [aurora\<lparr> r_rating := 47 / 10, r_totalReviews := 3 \<rparr>, helium],
       db_bookings = [],
       db_reviews = [rev_1, rev_2, new_review\<lparr> rv_id := ''review-1771000000000'',
          rv_createdAt := 1771000000001 \<rparr>],
       db_favourites = [] \<rparr>"
  by (simp add: Database_createReview_def updateRestaurantRating_def getReviewsByRestaurant_def
      Let_def db0_def rev_1_def rev_2_def new_review_def Math_round_def floor_rat_numeral
      number_text_def digit_char_def)

lemma db0_after_delete:
  "snd (Database_deleteReview ''rev-2'' db0) =
     \<lparr> db_restaurants = [aurora\<lparr> r_rating := 5, r_totalReviews := 1 \<rparr>, helium],
       db_bookings = [], db_reviews = [rev_1], db_favourites = [] \<rparr>"
  by (simp add: Database_deleteReview_def updateRestaurantRating_def getReviewsByRestaurant_def
      Let_def db0_def rev_1_def rev_2_def Math_round_def floor_rat_numeral)

lemma db0_facts:
  "find (\<lambda>r. rv_id r = ''rev-2'') (db_reviews db0) = Some rev_2"
  "rv_restaurantId new_review = ''rest-1''"
  "rv_restaurantId rev_2 = ''rest-1''"
  "db_restaurants db0 = [aurora, helium]"
  "getRestaurantById db0 ''rest-1'' = Some aurora"
  by (simp_all add: db0_def new_review_def rev_1_def rev_2_def getRestaurantById_def)


subsection \<open>Rating recomputation\<close>

lemma updateRestaurantRating_reviews [simp]:
  "db_reviews (updateRestaurantRating rid db) = db_reviews db"
  by (simp add: updateRestaurantRating_def Let_def split: option.splits)

lemma getReviewsByRestaurant_update [simp]:
  "getReviewsByRestaurant (updateRestaurantRating rid db) rid' = getReviewsByRestaurant db rid'"
  by (simp add: getReviewsByRestaurant_def)

lemma floor_one_half [simp]: "\<lfloor>(1::rat) / 2\<rfloor> = 0"
  by (rule floor_unique) simp_all

lemma Math_round_0 [simp]: "Math_round 0 = 0"
  by (simp add: Math_round_def)

lemma updateRestaurantRating_alt:
  "updateRestaurantRating rid db =
     (case findIndex (\<lambda>r. r_id r = rid) (db_restaurants db) of
        None \<Rightarrow> db
      | Some i \<Rightarrow> db\<lparr> db_restaurants := (db_restaurants db)[i :=
           (db_restaurants db ! i)\<lparr>
              r_rating := spec_rating (map rv_rating (getReviewsByRestaurant db rid)),
              r_totalReviews := length (getReviewsByRestaurant db rid) \<rparr>] \<rparr>)"
proof (cases "getReviewsByRestaurant db rid = []")
  case True
  then show ?thesis
    by (simp add: updateRestaurantRating_def Let_def spec_rating_def split: option.splits)
next
  case False
  then show ?thesis
    by (simp add: updateRestaurantRating_def Let_def spec_rating_def Math_round_eq_round
        foldl_add_sum_list split: option.splits)
qed












subsection \<open>Frame of the rating recomputation\<close>

lemma updateRestaurantRating_frame:
  "only_rating_changed rid (db_restaurants db) (db_restaurants (updateRestaurantRating rid db))"
proof (cases "findIndex (\<lambda>r. r_id r = rid) (db_restaurants db)")
  case None
  then show ?thesis
    by (simp add: updateRestaurantRating_alt only_rating_changed_def list_all_iff)
next
  case (Some i)
  from findIndex_SomeD[OF Some] have "i < length (db_restaurants db)"
    by simp
  with Some show ?thesis
    by (auto simp: updateRestaurantRating_alt only_rating_changed_def list_all_iff
        nth_list_update)
qed

lemma updateRestaurantRating_others [simp]:
  "db_bookings (updateRestaurantRating rid db) = db_bookings db"
  "db_favourites (updateRestaurantRating rid db) = db_favourites db"
  by (simp_all add: updateRestaurantRating_alt split: option.splits)

text \<open>
  C9. The recomputation run by \<^verbatim>\<open>createReview\<close> and \<^verbatim>\<open>deleteReview\<close> changes at most the
  \<^verbatim>\<open>rating\<close> and \<^verbatim>\<open>totalReviews\<close> fields of the one restaurant that owns the review: every
  other field of it and every other restaurant stay as they were, and so do the booking
  and favourite arrays.
\<close>

theorem C9_rating_frame:
  "only_rating_changed (rv_restaurantId review) (db_restaurants db)
      (db_restaurants (snd (Database_createReview now0 now1 review db)))
   \<and> (case find (\<lambda>r. rv_id r = ident) (db_reviews db) of
         None \<Rightarrow> snd (Database_deleteReview ident db) = db
       | Some old \<Rightarrow> only_rating_changed (rv_restaurantId old) (db_restaurants db)
           (db_restaurants (snd (Database_deleteReview ident db))))
   \<and> db_bookings (snd (Database_createReview now0 now1 review db)) = db_bookings db
   \<and> db_favourites (snd (Database_createReview now0 now1 review db)) = db_favourites db
   \<and> db_bookings (snd (Database_deleteReview ident db)) = db_bookings db
   \<and> db_favourites (snd (Database_deleteReview ident db)) = db_favourites db"
proof -
  let ?db1 = "db\<lparr> db_reviews := db_reviews db @
     [review\<lparr> rv_id := ''review-'' @ number_text now0, rv_createdAt := now1 \<rparr>] \<rparr>"
  have c: "only_rating_changed (rv_restaurantId review) (db_restaurants db)
      (db_restaurants (snd (Database_createReview now0 now1 review db)))"
    using updateRestaurantRating_frame[of "rv_restaurantId review" ?db1]
    by (simp add: Database_createReview_def Let_def)
  have d: "case find (\<lambda>r. rv_id r = ident) (db_reviews db) of
         None \<Rightarrow> snd (Database_deleteReview ident db) = db
       | Some old \<Rightarrow> only_rating_changed (rv_restaurantId old) (db_restaurants db)
           (db_restaurants (snd (Database_deleteReview ident db)))"
  proof (cases "find (\<lambda>r. rv_id r = ident) (db_reviews db)")
    case None
    then show ?thesis
      by (simp add: Database_deleteReview_def)
  next
    case (Some old)
    let ?db2 = "db\<lparr> db_reviews := filter (\<lambda>r. rv_id r \<noteq> ident) (db_reviews db) \<rparr>"
    from Some updateRestaurantRating_frame[of "rv_restaurantId old" ?db2]
    show ?thesis
      by (simp add: Database_deleteReview_def Let_def)
  qed
  have e: "db_bookings (snd (Database_createReview now0 now1 review db)) = db_bookings db"
    "db_favourites (snd (Database_createReview now0 now1 review db)) = db_favourites db"
    by (simp_all add: Database_createReview_def Let_def)
  have f: "db_bookings (snd (Database_deleteReview ident db)) = db_bookings db"
    "db_favourites (snd (Database_deleteReview ident db)) = db_favourites db"
    by (simp_all add: Database_deleteReview_def Let_def split: option.splits)
  from c d e f show ?thesis
    by simp
qed

theorem C9_rating_frame_witness:
  "only_rating_changed ''rest-1'' [aurora, helium]
      [aurora\<lparr> r_rating := 47 / 10, r_totalReviews := 3 \<rparr>, helium]
   \<and> only_rating_changed ''rest-1'' [aurora, helium]
      [aurora\<lparr> r_rating := 5, r_totalReviews := 1 \<rparr>, helium]"
  using C9_rating_frame [of new_review db0 1771000000000 1771000000001 "''rev-2''"]
  by (simp add: db0_facts db0_after_create db0_after_delete)

subsection \<open>Seat availability\<close>

lemma Database_getAvailableSeats_known:
  assumes "getRestaurantById db R = Some r"
  shows "Database_getAvailableSeats db R D S = r_totalSeats r - activeSeats (db_bookings db) R D S"
proof -
  have eq: "(\<lambda>b. b_restaurantId b = R \<and> b_date b = D \<and> b_timeSlot b = S \<and>
          (b_status b = Confirmed \<or> b_status b = Pending))
      = (\<lambda>b. b_restaurantId b = R \<and> b_date b = D \<and> b_timeSlot b = S \<and>
          b_status b \<in> {Pending, Confirmed})"
    by (intro ext) auto
  show ?thesis
    unfolding Database_getAvailableSeats_def activeSeats_def eq
    using assms by (simp add: foldl_add_sum_list)
qed

lemma MockDatabase_getAvailableSeats_known:
  assumes "getRestaurant mdb R = Some mr"
  shows "MockDatabase_getAvailableSeats mdb R D S =
     max 0 (mr_totalSeats mr - confirmedGuests (md_bookings mdb) R D S)"
  using assms
  by (simp add: MockDatabase_getAvailableSeats_def confirmedGuests_def foldl_add_sum_list)

lemma MockDatabase_getAvailableSeats_nonneg:
  "0 \<le> MockDatabase_getAvailableSeats mdb R D S"
  by (simp add: MockDatabase_getAvailableSeats_def split: option.splits)

lemma random_pick_range:
  fixes random :: rat and k :: int
  assumes "0 \<le> random" "random < 1" "1 \<le> k"
  shows "0 \<le> \<lfloor>random * of_int k\<rfloor> \<and> \<lfloor>random * of_int k\<rfloor> \<le> k - 1"
proof -
  have k: "(0::rat) < of_int k"
    using assms(3) by simp
  have "0 \<le> random * of_int k"
    using assms(1) k by simp
  then have lo: "0 \<le> \<lfloor>random * of_int k\<rfloor>"
    by simp
  have "random * of_int k < of_int k"
    using assms(2) k by simp
  then have "\<lfloor>random * of_int k\<rfloor> < k"
    by (simp add: floor_less_iff)
  with lo show ?thesis
    by simp
qed

lemma RestaurantService_getAvailableSeats_range:
  assumes "find (\<lambda>x. r_id x = R) seed = Some sr" and "0 \<le> r_totalSeats sr"
    and "0 \<le> random" and "random < 1"
  shows "\<exists>n. RestaurantService_getAvailableSeats seed random R D S = Inr n \<and>
     \<lfloor>of_int (r_totalSeats sr) * (1 / 2 :: rat)\<rfloor> \<le> n \<and>
     n \<le> \<lfloor>of_int (r_totalSeats sr) * (9 / 10 :: rat)\<rfloor>"
proof -
  let ?lo = "\<lfloor>of_int (r_totalSeats sr) * (1 / 2 :: rat)\<rfloor>"
  let ?hi = "\<lfloor>of_int (r_totalSeats sr) * (9 / 10 :: rat)\<rfloor>"
  have "of_int (r_totalSeats sr) * (1 / 2 :: rat) \<le> of_int (r_totalSeats sr) * (9 / 10)"
    using assms(2) by (intro mult_left_mono) simp_all
  then have "?lo \<le> ?hi"
    by (rule floor_mono)
  then have "1 \<le> ?hi - ?lo + 1"
    by simp
  from random_pick_range[OF assms(3,4) this]
  have "0 \<le> \<lfloor>random * of_int (?hi - ?lo + 1)\<rfloor>" "\<lfloor>random * of_int (?hi - ?lo + 1)\<rfloor> \<le> ?hi - ?lo"
    by simp_all
  with assms(1) show ?thesis
    by (simp add: RestaurantService_getAvailableSeats_def Let_def)
qed

lemma db1_eval:
  "getRestaurantById db1 ''rest-1'' = Some aurora"
  "activeSeats (db_bookings db1) ''rest-1'' ''2026-03-01'' ''7:00 PM'' = 4"
  "r_totalSeats aurora = 50"
  by (simp_all add: db1_def db0_def getRestaurantById_def activeSeats_def booking_4_def aurora_def)

lemma mdb0_eval:
  "getRestaurant mdb0 ''1'' = Some mock_aurora"
  "confirmedGuests (md_bookings mdb0) ''1'' ''2026-03-01'' ''6:00 PM - 8:00 PM'' = 4"
  "mr_totalSeats mock_aurora = 60"
  by (simp_all add: mdb0_def getRestaurant_def confirmedGuests_def mock_b1_def mock_aurora_def)

lemma demo_aurora_eval:
  "find (\<lambda>x. r_id x = ''rest-1'') [demo_aurora] = Some demo_aurora"
  "r_totalSeats demo_aurora = 50"
  "r_id demo_aurora = ''rest-1''"
  by (simp_all add: demo_aurora_def aurora_def)

text \<open>
  C1, as stated, fails: with the remote service unreachable
  \<^verbatim>\<open>RestaurantService.getAvailableSeats\<close> never looks at a booking. For the 50-seat seed
  restaurant with no booking at all and \<^verbatim>\<open>Math.random()\<close> returning 0 it answers 25, where
  the formula gives 50.
\<close>

theorem C1_counterexample:
  "RestaurantService_getAvailableSeats [demo_aurora] 0 ''rest-1'' ''2026-03-01'' ''7:00 PM'' = Inr 25
   \<and> max 0 (r_totalSeats demo_aurora - activeSeats [] ''rest-1'' ''2026-03-01'' ''7:00 PM'') = 50"
  by (simp add: RestaurantService_getAvailableSeats_def demo_aurora_def aurora_def activeSeats_def
      floor_rat_numeral)

text \<open>
  C1, amended. For a restaurant held by the store, \<^verbatim>\<open>Database.getAvailableSeats\<close> returns
  \<^verbatim>\<open>max(0, totalSeats - booked)\<close>, a non-negative number, whenever the seats booked by pending
  and confirmed bookings of the slot do not exceed \<^verbatim>\<open>totalSeats\<close>.
  \<^verbatim>\<open>MockDatabase.getAvailableSeats\<close> returns \<^verbatim>\<open>max(0, totalSeats - guests of confirmed bookings)\<close>
  and is never negative. The fallback of \<^verbatim>\<open>RestaurantService.getAvailableSeats\<close> returns, for
  a seed restaurant, a number between \<^verbatim>\<open>floor(0.5 * totalSeats)\<close> and
  \<^verbatim>\<open>floor(0.9 * totalSeats)\<close> chosen by \<^verbatim>\<open>Math.random()\<close>.
\<close>

theorem C1_availability_amended:
  "(getRestaurantById db R = Some r \<and> activeSeats (db_bookings db) R D S \<le> r_totalSeats r \<longrightarrow>
      Database_getAvailableSeats db R D S
        = max 0 (r_totalSeats r - activeSeats (db_bookings db) R D S) \<and>
      0 \<le> Database_getAvailableSeats db R D S)
   \<and> (getRestaurant mdb R' = Some mr \<longrightarrow>
      MockDatabase_getAvailableSeats mdb R' D' S'
        = max 0 (mr_totalSeats mr - confirmedGuests (md_bookings mdb) R' D' S'))
   \<and> 0 \<le> MockDatabase_getAvailableSeats mdb R' D' S'
   \<and> (find (\<lambda>x. r_id x = R'') seed = Some sr \<and> 0 \<le> r_totalSeats sr \<and>
        0 \<le> random \<and> random < 1 \<longrightarrow>
      (\<exists>n. RestaurantService_getAvailableSeats seed random R'' D'' S'' = Inr n \<and>
         \<lfloor>of_int (r_totalSeats sr) * (1 / 2 :: rat)\<rfloor> \<le> n \<and>
         n \<le> \<lfloor>of_int (r_totalSeats sr) * (9 / 10 :: rat)\<rfloor>))"
  using Database_getAvailableSeats_known[of db R r D S]
    MockDatabase_getAvailableSeats_known[of mdb R' mr D' S']
    MockDatabase_getAvailableSeats_nonneg[of mdb R' D' S']
    RestaurantService_getAvailableSeats_range[of R'' seed sr random D'' S'']
  by simp

theorem C1_availability_amended_witness:
  "getRestaurantById db1 ''rest-1'' = Some aurora
   \<and> activeSeats (db_bookings db1) ''rest-1'' ''2026-03-01'' ''7:00 PM'' \<le> r_totalSeats aurora
   \<and> Database_getAvailableSeats db1 ''rest-1'' ''2026-03-01'' ''7:00 PM'' = 46
   \<and> getRestaurant mdb0 ''1'' = Some mock_aurora
   \<and> MockDatabase_getAvailableSeats mdb0 ''1'' ''2026-03-01'' ''6:00 PM - 8:00 PM'' = 56
   \<and> find (\<lambda>x. r_id x = ''rest-1'') [demo_aurora] = Some demo_aurora
   \<and> (\<exists>n. RestaurantService_getAvailableSeats [demo_aurora] (1 / 2) ''rest-1'' ''2026-03-01''
           ''7:00 PM'' = Inr n \<and> 25 \<le> n \<and> n \<le> 45)"
  using C1_availability_amended [where db = db1 and R = "''rest-1''" and r = aurora
      and D = "''2026-03-01''" and S = "''7:00 PM''"
      and mdb = mdb0 and R' = "''1''" and mr = mock_aurora
      and D' = "''2026-03-01''" and S' = "''6:00 PM - 8:00 PM''"
      and seed = "[demo_aurora]" and R'' = "''rest-1''" and sr = demo_aurora
      and random = "1 / 2" and D'' = "''2026-03-01''" and S'' = "''7:00 PM''"]
  by (simp add: db1_eval mdb0_eval demo_aurora_eval floor_rat_numeral)

subsection \<open>Availability of an unknown restaurant\<close>

text \<open>
  C8, as stated, fails: \<^verbatim>\<open>Database.getAvailableSeats\<close> answers an unknown restaurant id with
  the number 0 (\<^verbatim>\<open>if (!restaurant) return 0\<close>).
\<close>

theorem C8_counterexample:
  "getRestaurantById db0 ''rest-999'' = None
   \<and> Database_getAvailableSeats db0 ''rest-999'' ''2026-03-01'' ''7:00 PM'' = 0"
  by (simp add: Database_getAvailableSeats_def getRestaurantById_def db0_def)

text \<open>
  C8, amended. For a restaurant id that the seed data does not hold, the fallback of
  \<^verbatim>\<open>RestaurantService.getAvailableSeats\<close> fails with 'Restaurant not found';
  \<^verbatim>\<open>Database.getAvailableSeats\<close> and \<^verbatim>\<open>MockDatabase.getAvailableSeats\<close> return 0 for an id
  their store does not hold.
\<close>

theorem C8_unknown_restaurant_amended:
  "(find (\<lambda>r. r_id r = R) seed = None \<longrightarrow>
      RestaurantService_getAvailableSeats seed random R D S = Inl RestaurantNotFound)
   \<and> (getRestaurantById db R' = None \<longrightarrow> Database_getAvailableSeats db R' D' S' = 0)
   \<and> (getRestaurant mdb R'' = None \<longrightarrow> MockDatabase_getAvailableSeats mdb R'' D'' S'' = 0)"
  by (simp add: RestaurantService_getAvailableSeats_def Database_getAvailableSeats_def
      MockDatabase_getAvailableSeats_def)

theorem C8_unknown_restaurant_amended_witness:
  "find (\<lambda>r. r_id r = ''rest-999'') [demo_aurora] = None
   \<and> RestaurantService_getAvailableSeats [demo_aurora] (1 / 2) ''rest-999'' ''2026-03-01''
        ''7:00 PM'' = Inl RestaurantNotFound
   \<and> getRestaurantById db0 ''rest-999'' = None
   \<and> Database_getAvailableSeats db0 ''rest-999'' ''2026-03-01'' ''7:00 PM'' = 0
   \<and> getRestaurant mdb0 ''7'' = None
   \<and> MockDatabase_getAvailableSeats mdb0 ''7'' ''2026-03-01'' ''7:00 PM'' = 0"
  using C8_unknown_restaurant_amended [where seed = "[demo_aurora]" and R = "''rest-999''"
      and random = "1 / 2" and D = "''2026-03-01''" and S = "''7:00 PM''"
      and db = db0 and R' = "''rest-999''" and D' = "''2026-03-01''" and S' = "''7:00 PM''"
      and mdb = mdb0 and R'' = "''7''" and D'' = "''2026-03-01''" and S'' = "''7:00 PM''"]
  by (simp add: demo_aurora_def getRestaurantById_def db0_def getRestaurant_def mdb0_def
      mock_aurora_def)

subsection \<open>Creating bookings\<close>

lemma getAllLocalBookings_overlayRecords: "getAllLocalBookings store = overlayRecords store"
  by (simp add: getAllLocalBookings_def overlayRecords_def split: slot.splits)

lemma getAllLocalReviews_overlayRecords: "getAllLocalReviews store = overlayRecords store"
  by (simp add: getAllLocalReviews_def overlayRecords_def split: slot.splits)

lemma customer_id [simp]: "u_id customer = ''user-customer-1''"
  by (simp add: customer_def)

text \<open>
  C2 at a failing input. Two requests for 30 seats each, for the same slot of the 50-seat
  restaurant \<^verbatim>\<open>rest-1\<close>, one after the other: \<^verbatim>\<open>BookingService.createBooking\<close> (fallback
  path) stores both as pending bookings, 60 seats in all, and so does
  \<^verbatim>\<open>Database.createBooking\<close>, after which \<^verbatim>\<open>Database.getAvailableSeats\<close> answers -10.
\<close>

theorem C2_createBooking_overbooks:
  "r_totalSeats demo_aurora = 50
   \<and> length (getAllLocalBookings overlay_after_two) = 2
   \<and> activeSeats (getAllLocalBookings overlay_after_two) ''rest-1'' ''2026-03-01'' ''7:00 PM'' = 60
   \<and> getRestaurantById db_after_two ''rest-1'' = Some aurora
   \<and> r_totalSeats aurora = 50
   \<and> activeSeats (db_bookings db_after_two) ''rest-1'' ''2026-03-01'' ''7:00 PM'' = 60
   \<and> Database_getAvailableSeats db_after_two ''rest-1'' ''2026-03-01'' ''7:00 PM'' = - 10"
proof -
  have s: "getAllLocalBookings overlay_after_two = [
      \<lparr> b_id = ''booking-demo-1772000000000'', b_restaurantId = ''rest-1'',
        b_userId = ''user-customer-1'', b_date = ''2026-03-01'', b_timeSlot = ''7:00 PM'',
        b_seats = 30, b_status = Pending, b_customerName = ''Rakib Hassan'',
        b_customerEmail = ''customer@demo.com'', b_customerPhone = ''+880 1711-999001'',
        b_specialRequests = None, b_createdAt = 1772000000000, b_updatedAt = 1772000000000,
        b_restaurant = Some \<lparr> br_id = ''rest-1'', br_name = ''Aurora'', br_image = ''aurora.jpg'',
           br_location = ''Shaheb Bazar, Rajshahi'' \<rparr> \<rparr>,
      \<lparr> b_id = ''booking-demo-1772000060000'', b_restaurantId = ''rest-1'',
        b_userId = ''user-customer-1'', b_date = ''2026-03-01'', b_timeSlot = ''7:00 PM'',
        b_seats = 30, b_status = Pending, b_customerName = ''Rakib Hassan'',
        b_customerEmail = ''customer@demo.com'', b_customerPhone = ''+880 1711-999001'',
        b_specialRequests = None, b_createdAt = 1772000060000, b_updatedAt = 1772000060000,
        b_restaurant = Some \<lparr> br_id = ''rest-1'', br_name = ''Aurora'', br_image = ''aurora.jpg'',
           br_location = ''Shaheb Bazar, Rajshahi'' \<rparr> \<rparr>]"
    by (simp add: overlay_after_two_def BookingService_createBooking_def saveDemoBooking_def
        saveAllLocalBookings_def getAllLocalBookings_def data30_def demo_aurora_def aurora_def
        number_text_def digit_char_def Let_def)
  have d: "db_bookings db_after_two = [
      request30\<lparr> b_id := ''booking-1772000000000'', b_createdAt := 1772000000000,
         b_updatedAt := 1772000000000 \<rparr>,
      request30\<lparr> b_id := ''booking-1772000060000'', b_createdAt := 1772000060000,
         b_updatedAt := 1772000060000 \<rparr>]"
    "db_restaurants db_after_two = [aurora, helium]"
    by (simp_all add: db_after_two_def Database_createBooking_def db0_def Let_def
        number_text_def digit_char_def)
  have r: "getRestaurantById db_after_two ''rest-1'' = Some aurora"
    by (simp add: getRestaurantById_def d)
  have a: "activeSeats (db_bookings db_after_two) ''rest-1'' ''2026-03-01'' ''7:00 PM'' = 60"
    by (simp add: d activeSeats_def request30_def booking_4_def)
  have t: "r_totalSeats aurora = 50" "r_totalSeats demo_aurora = 50"
    by (simp_all add: demo_aurora_def aurora_def)
  have "Database_getAvailableSeats db_after_two ''rest-1'' ''2026-03-01'' ''7:00 PM'' = - 10"
    using Database_getAvailableSeats_known[OF r, of "''2026-03-01''" "''7:00 PM''"]
    by (simp add: a t)
  then show ?thesis
    using r a t by (simp add: s activeSeats_def)
qed


text \<open>
  The sibling \<^verbatim>\<open>MockDatabase.createBooking\<close> does check the capacity before it writes: it
  never takes the confirmed guests of a slot above \<^verbatim>\<open>totalSeats\<close>.
\<close>

lemma confirmedGuests_append:
  "confirmedGuests (bs @ [b]) R D S =
     confirmedGuests bs R D S +
     (if mb_restaurantId b = R \<and> mb_date b = D \<and> mb_timeSlot b = S \<and> mb_status b = Confirmed
      then mb_guests b else 0)"
  by (simp add: confirmedGuests_def)

lemma MockDatabase_createBooking_restaurants [simp]:
  "md_restaurants (snd (MockDatabase_createBooking randomId now booking mdb)) = md_restaurants mdb"
  by (simp add: MockDatabase_createBooking_def Let_def)

lemma MockDatabase_createBooking_keeps_capacity:
  assumes r: "getRestaurant mdb R = Some mr"
    and inv: "confirmedGuests (md_bookings mdb) R D S \<le> mr_totalSeats mr"
  shows "confirmedGuests (md_bookings (snd (MockDatabase_createBooking randomId now booking mdb)))
           R D S \<le> mr_totalSeats mr"
proof (cases "MockDatabase_getAvailableSeats mdb (mb_restaurantId booking) (mb_date booking)
                (mb_timeSlot booking) < mb_guests booking")
  case True
  with inv show ?thesis
    by (simp add: MockDatabase_createBooking_def Let_def)
next
  case False
  show ?thesis
  proof (cases "mb_restaurantId booking = R \<and> mb_date booking = D \<and> mb_timeSlot booking = S")
    case same: True
    from r same have "MockDatabase_getAvailableSeats mdb (mb_restaurantId booking)
          (mb_date booking) (mb_timeSlot booking)
        = max 0 (mr_totalSeats mr - confirmedGuests (md_bookings mdb) R D S)"
      by (simp add: MockDatabase_getAvailableSeats_known)
    with False have "mb_guests booking \<le>
        max 0 (mr_totalSeats mr - confirmedGuests (md_bookings mdb) R D S)"
      by linarith
    with inv have "confirmedGuests (md_bookings mdb) R D S + mb_guests booking \<le> mr_totalSeats mr"
      by simp
    with False same show ?thesis
      by (simp add: MockDatabase_createBooking_def Let_def confirmedGuests_append)
  next
    case other: False
    with False inv show ?thesis
      by (auto simp: MockDatabase_createBooking_def Let_def confirmedGuests_append)
  qed
qed




subsection \<open>Status transitions\<close>

lemma find_SomeE_findIndex:
  assumes "find P xs = Some x"
  obtains i where "findIndex P xs = Some i" "i < length xs" "xs ! i = x" "P x"
proof -
  from assms obtain i where i: "findIndex P xs = Some i" and x: "xs ! i = x"
    by (auto simp: find_findIndex split: option.splits)
  from findIndex_SomeD[OF i] x that[OF i] show thesis
    by auto
qed

lemma find_None_findIndex: "find P xs = None \<longleftrightarrow> findIndex P xs = None"
  by (simp add: find_findIndex split: option.splits)

text \<open>
  Neither transition operation reads the current status: for any booking found in the
  overlay each stores and returns the booking with the status it was asked to set.
\<close>

lemma BookingService_cancelBooking_found:
  assumes "find (\<lambda>b. b_id b = ident) (getAllLocalBookings store) = Some b"
  shows "\<exists>store'. BookingService_cancelBooking now ident store
            = (Inr (b\<lparr> b_status := Cancelled, b_updatedAt := now \<rparr>), store') \<and>
          find (\<lambda>b. b_id b = ident) (getAllLocalBookings store')
            = Some (b\<lparr> b_status := Cancelled, b_updatedAt := now \<rparr>)"
proof -
  let ?P = "\<lambda>b. b_id b = ident"
  from assms obtain i where i: "findIndex ?P (getAllLocalBookings store) = Some i"
    and len: "i < length (getAllLocalBookings store)"
    and b: "getAllLocalBookings store ! i = b" and id: "b_id b = ident"
    by (rule find_SomeE_findIndex)
  from id have "?P (b\<lparr> b_status := Cancelled, b_updatedAt := now \<rparr>)"
    by simp
  from find_update_at_findIndex[OF i this] i len b show ?thesis
    by (simp add: BookingService_cancelBooking_def Let_def saveAllLocalBookings_def
        getAllLocalBookings_def)
qed

lemma BookingService_updateBookingStatus_found:
  assumes "find (\<lambda>b. b_id b = ident) (getAllLocalBookings store) = Some b"
  shows "\<exists>store'. BookingService_updateBookingStatus now ident status store
            = (Inr (b\<lparr> b_status := status, b_updatedAt := now \<rparr>), store') \<and>
          find (\<lambda>b. b_id b = ident) (getAllLocalBookings store')
            = Some (b\<lparr> b_status := status, b_updatedAt := now \<rparr>)"
proof -
  let ?P = "\<lambda>b. b_id b = ident"
  from assms obtain i where i: "findIndex ?P (getAllLocalBookings store) = Some i"
    and len: "i < length (getAllLocalBookings store)"
    and b: "getAllLocalBookings store ! i = b" and id: "b_id b = ident"
    by (rule find_SomeE_findIndex)
  from id have "?P (b\<lparr> b_status := status, b_updatedAt := now \<rparr>)"
    by simp
  from find_update_at_findIndex[OF i this] i len b show ?thesis
    by (simp add: BookingService_updateBookingStatus_def Let_def saveAllLocalBookings_def
        getAllLocalBookings_def)
qed

lemma MockDatabase_cancelBooking_found:
  assumes "find (\<lambda>b. mb_id b = ident) (md_bookings mdb) = Some mb"
  shows "find (\<lambda>b. mb_id b = ident) (md_bookings (MockDatabase_cancelBooking ident mdb))
           = Some (mb\<lparr> mb_status := Cancelled \<rparr>)"
proof -
  let ?P = "\<lambda>b. mb_id b = ident"
  from assms obtain i where i: "findIndex ?P (md_bookings mdb) = Some i"
    and b: "md_bookings mdb ! i = mb" and id: "mb_id mb = ident"
    by (rule find_SomeE_findIndex)
  from id have "?P (mb\<lparr> mb_status := Cancelled \<rparr>)"
    by simp
  from find_update_at_findIndex[OF i this] i b show ?thesis
    by (simp add: MockDatabase_cancelBooking_def)
qed

text \<open>
  C4 at a failing input. The local overlay holds a booking whose status is completed.
  \<^verbatim>\<open>cancelBooking\<close> succeeds on it and stores it as cancelled;
  \<^verbatim>\<open>updateBookingStatus\<close> succeeds on it and stores it as pending; and on the cancelled
  booking \<^verbatim>\<open>updateBookingStatus\<close> succeeds again and stores it as confirmed. None of the
  three calls fails: the operations assign the status without reading the current one.
\<close>

theorem C4_terminal_transitions_succeed:
  "b_status done_booking = Completed
   \<and> BookingService_cancelBooking 1772500000000 ''booking-demo-1772000000000''
        (Stored [done_booking])
      = (Inr (done_booking\<lparr> b_status := Cancelled, b_updatedAt := 1772500000000 \<rparr>),
         Stored [done_booking\<lparr> b_status := Cancelled, b_updatedAt := 1772500000000 \<rparr>])
   \<and> BookingService_updateBookingStatus 1772500000000 ''booking-demo-1772000000000'' Pending
        (Stored [done_booking])
      = (Inr (done_booking\<lparr> b_status := Pending, b_updatedAt := 1772500000000 \<rparr>),
         Stored [done_booking\<lparr> b_status := Pending, b_updatedAt := 1772500000000 \<rparr>])
   \<and> BookingService_updateBookingStatus 1772600000000 ''booking-demo-1772000000000'' Confirmed
        (Stored [done_booking\<lparr> b_status := Cancelled, b_updatedAt := 1772500000000 \<rparr>])
      = (Inr (done_booking\<lparr> b_status := Confirmed, b_updatedAt := 1772600000000 \<rparr>),
         Stored [done_booking\<lparr> b_status := Confirmed, b_updatedAt := 1772600000000 \<rparr>])"
  by (simp add: BookingService_cancelBooking_def BookingService_updateBookingStatus_def
      getAllLocalBookings_def saveAllLocalBookings_def done_booking_def Let_def)

subsection \<open>Fallback list queries\<close>

lemma newestFirst_sortNewestFirst: "newestFirst createdAt (sortNewestFirst createdAt xs)"
proof -
  have "sorted (map (\<lambda>x. - createdAt x) (sort_key (\<lambda>x. - createdAt x) xs))"
    by (rule sorted_sort_key)
  then show ?thesis
    by (simp add: newestFirst_def sortNewestFirst_def sorted_map)
qed

lemma mset_sortNewestFirst [simp]: "mset (sortNewestFirst createdAt xs) = mset xs"
  by (simp add: sortNewestFirst_def)

lemma distinct_ids_sortNewestFirst:
  "distinct (map ident (sortNewestFirst createdAt xs)) \<longleftrightarrow> distinct (map ident xs)"
proof -
  have "mset (map ident (sortNewestFirst createdAt xs)) = mset (map ident xs)"
    by simp
  then show ?thesis
    by (rule mset_eq_imp_distinct_iff)
qed

lemma BookingService_getMyBookings_eq:
  "BookingService_getMyBookings (Some u) seedBookings bookingStore
     = sortNewestFirst b_createdAt
         ([b \<leftarrow> seedBookings. b_userId b = u_id u]
          @ [b \<leftarrow> overlayRecords bookingStore. b_userId b = u_id u])"
  by (simp add: BookingService_getMyBookings_def getDemoBookingsByUserId_def
      getLocalBookingsByUserId_def getAllLocalBookings_overlayRecords Let_def)

lemma ReviewService_getRestaurantReviews_eq:
  "ReviewService_getRestaurantReviews seedReviews reviewStore restaurantId
     = sortNewestFirst rv_createdAt
         ([r \<leftarrow> seedReviews. rv_restaurantId r = restaurantId]
          @ [r \<leftarrow> overlayRecords reviewStore. rv_restaurantId r = restaurantId])"
  by (simp add: ReviewService_getRestaurantReviews_def getDemoReviewsByRestaurantId_def
      getLocalReviewsByRestaurantId_def getAllLocalReviews_overlayRecords Let_def)

lemma BookingService_getRestaurantBookings_eq:
  "BookingService_getRestaurantBookings seedBookings bookingStore restaurantId filters
     = filter (matchesFilters restaurantId filters) seedBookings
       @ filter (matchesFilters restaurantId filters) (overlayRecords bookingStore)"
  unfolding BookingService_getRestaurantBookings_def Let_def matchesFilters_def
    getAllLocalBookings_overlayRecords
  by (simp del: filter_append add: filter_append[symmetric] conj_ac)

lemma overlay_same_ms_ids:
  "map b_id (overlayRecords overlay_same_ms)
     = [''booking-demo-1772000000000'', ''booking-demo-1772000000000'']"
  "map b_userId (overlayRecords overlay_same_ms) = [''user-customer-1'', ''user-customer-1'']"
  "map b_createdAt (overlayRecords overlay_same_ms) = [1772000000000, 1772000000000]"
  by (simp_all add: overlay_same_ms_def BookingService_createBooking_def saveDemoBooking_def
      saveAllLocalBookings_def getAllLocalBookings_def overlayRecords_def data2_def data30_def
      demo_aurora_eval number_text_def digit_char_def Let_def)

text \<open>
  C7, as stated, fails twice. \<^verbatim>\<open>getRestaurantBookings\<close> does not sort: with the seed booking
  of February 2024 and a newer overlay booking for the same restaurant it returns the
  older record first. And no query removes duplicates: two fallback bookings created
  within the same millisecond carry the same id, and \<^verbatim>\<open>getMyBookings\<close> returns both.
\<close>

theorem C7_counterexample:
  "BookingService_getRestaurantBookings [seed_booking_1] (Stored [done_booking]) ''rest-1'' None
     = [seed_booking_1, done_booking]
   \<and> b_createdAt seed_booking_1 < b_createdAt done_booking
   \<and> \<not> newestFirst b_createdAt
        (BookingService_getRestaurantBookings [seed_booking_1] (Stored [done_booking])
           ''rest-1'' None)
   \<and> map b_id (BookingService_getMyBookings (Some customer) [seed_booking_1] overlay_same_ms)
     = [''booking-demo-1772000000000'', ''booking-demo-1772000000000'', ''booking-1'']
   \<and> \<not> distinct (map b_id
        (BookingService_getMyBookings (Some customer) [seed_booking_1] overlay_same_ms))"
proof -
  have r: "BookingService_getRestaurantBookings [seed_booking_1] (Stored [done_booking])
      ''rest-1'' None = [seed_booking_1, done_booking]"
    by (simp add: BookingService_getRestaurantBookings_def getAllLocalBookings_def given_def
        seed_booking_1_def done_booking_def Let_def)
  have t: "b_createdAt seed_booking_1 < b_createdAt done_booking"
    by (simp add: seed_booking_1_def done_booking_def)
  obtain x y where xy: "overlayRecords overlay_same_ms = [x, y]"
    using overlay_same_ms_ids(1) by (auto simp: map_eq_Cons_conv)
  with overlay_same_ms_ids have f: "b_id x = ''booking-demo-1772000000000''"
    "b_id y = ''booking-demo-1772000000000''"
    "b_userId x = ''user-customer-1''" "b_userId y = ''user-customer-1''"
    "b_createdAt x = 1772000000000" "b_createdAt y = 1772000000000"
    by simp_all
  have m: "map b_id (BookingService_getMyBookings (Some customer) [seed_booking_1] overlay_same_ms)
     = [''booking-demo-1772000000000'', ''booking-demo-1772000000000'', ''booking-1'']"
    by (simp add: BookingService_getMyBookings_eq xy f sortNewestFirst_def seed_booking_1_def)
  from t show ?thesis
    unfolding m r by (simp add: newestFirst_def)
qed

text \<open>
  C7, amended. The fallback of \<^verbatim>\<open>getMyBookings\<close> returns the seed bookings of the stored
  user followed by the overlay bookings of that user, and the fallback of
  \<^verbatim>\<open>getRestaurantReviews\<close> the seed reviews of the restaurant followed by its overlay
  reviews, each sorted by \<^verbatim>\<open>createdAt\<close> descending: a permutation of that concatenation,
  newest first. Nothing is de-duplicated: the ids of the result are pairwise distinct
  exactly when those of the concatenation are. The fallback of \<^verbatim>\<open>getRestaurantBookings\<close>
  returns the seed bookings matching the restaurant and the filters followed by the
  matching overlay bookings, in stored order, unsorted.
\<close>

theorem C7_fallback_lists_amended:
  "mset (BookingService_getMyBookings (Some u) seedBookings bookingStore)
     = mset ([b \<leftarrow> seedBookings. b_userId b = u_id u]
             @ [b \<leftarrow> overlayRecords bookingStore. b_userId b = u_id u])
   \<and> newestFirst b_createdAt (BookingService_getMyBookings (Some u) seedBookings bookingStore)
   \<and> (distinct (map b_id (BookingService_getMyBookings (Some u) seedBookings bookingStore))
        \<longleftrightarrow> distinct (map b_id ([b \<leftarrow> seedBookings. b_userId b = u_id u]
             @ [b \<leftarrow> overlayRecords bookingStore. b_userId b = u_id u])))
   \<and> mset (ReviewService_getRestaurantReviews seedReviews reviewStore restaurantId)
     = mset ([r \<leftarrow> seedReviews. rv_restaurantId r = restaurantId]
             @ [r \<leftarrow> overlayRecords reviewStore. rv_restaurantId r = restaurantId])
   \<and> newestFirst rv_createdAt (ReviewService_getRestaurantReviews seedReviews reviewStore restaurantId)
   \<and> (distinct (map rv_id (ReviewService_getRestaurantReviews seedReviews reviewStore restaurantId))
        \<longleftrightarrow> distinct (map rv_id ([r \<leftarrow> seedReviews. rv_restaurantId r = restaurantId]
             @ [r \<leftarrow> overlayRecords reviewStore. rv_restaurantId r = restaurantId])))
   \<and> BookingService_getRestaurantBookings seedBookings bookingStore restaurantId filters
     = filter (matchesFilters restaurantId filters) seedBookings
       @ filter (matchesFilters restaurantId filters) (overlayRecords bookingStore)"
  unfolding BookingService_getMyBookings_eq ReviewService_getRestaurantReviews_eq
    BookingService_getRestaurantBookings_eq
  by (simp only: mset_sortNewestFirst newestFirst_sortNewestFirst
      distinct_ids_sortNewestFirst simp_thms)

theorem C7_fallback_lists_amended_witness:
  "BookingService_getMyBookings (Some customer) [seed_booking_1, seed_booking_4]
       (Stored [done_booking]) = [done_booking, seed_booking_1]
   \<and> newestFirst b_createdAt [done_booking, seed_booking_1]
   \<and> distinct (map b_id [done_booking, seed_booking_1])
   \<and> ReviewService_getRestaurantReviews [seed_review_2, seed_review_3] (Stored [review_a])
        ''rest-1'' = [seed_review_2, review_a]
   \<and> newestFirst rv_createdAt [seed_review_2, review_a]
   \<and> given (Option.bind (Some \<lparr> bf_status = Some ''completed'', bf_date = None \<rparr>) bf_status)
   \<and> BookingService_getRestaurantBookings [seed_booking_1, seed_booking_4]
        (Stored [done_booking]) ''rest-1''
        (Some \<lparr> bf_status = Some ''completed'', bf_date = None \<rparr>) = [done_booking]"
proof -
  have e1: "BookingService_getMyBookings (Some customer) [seed_booking_1, seed_booking_4]
      (Stored [done_booking]) = [done_booking, seed_booking_1]"
    by (simp add: BookingService_getMyBookings_def getDemoBookingsByUserId_def
        getLocalBookingsByUserId_def getAllLocalBookings_def sortNewestFirst_def
        seed_booking_1_def seed_booking_4_def done_booking_def Let_def)
  have e2: "ReviewService_getRestaurantReviews [seed_review_2, seed_review_3]
      (Stored [review_a]) ''rest-1'' = [seed_review_2, review_a]"
    by (simp add: ReviewService_getRestaurantReviews_def getDemoReviewsByRestaurantId_def
        getLocalReviewsByRestaurantId_def getAllLocalReviews_def sortNewestFirst_def
        seed_review_2_def seed_review_3_def review_a_def Let_def)
  have e3: "distinct (map b_id ([b \<leftarrow> [seed_booking_1, seed_booking_4]. b_userId b = u_id customer]
             @ [b \<leftarrow> overlayRecords (Stored [done_booking]). b_userId b = u_id customer]))"
    by (simp add: overlayRecords_def seed_booking_1_def seed_booking_4_def done_booking_def)
  have e4: "filter (matchesFilters ''rest-1''
        (Some \<lparr> bf_status = Some ''completed'', bf_date = None \<rparr>)) [seed_booking_1, seed_booking_4]
      @ filter (matchesFilters ''rest-1'' (Some \<lparr> bf_status = Some ''completed'', bf_date = None \<rparr>))
          (overlayRecords (Stored [done_booking])) = [done_booking]"
    by (simp add: matchesFilters_def given_def overlayRecords_def seed_booking_1_def
        seed_booking_4_def done_booking_def)
  have e5: "given (Option.bind (Some \<lparr> bf_status = Some ''completed'', bf_date = None \<rparr>) bf_status)"
    by (simp add: given_def)
  note T = C7_fallback_lists_amended [where u = customer
      and seedBookings = "[seed_booking_1, seed_booking_4]"
      and bookingStore = "Stored [done_booking]"
      and seedReviews = "[seed_review_2, seed_review_3]"
      and reviewStore = "Stored [review_a]" and restaurantId = "''rest-1''"
      and filters = "Some \<lparr> bf_status = Some ''completed'', bf_date = None \<rparr>"]
  have g: "BookingService_getRestaurantBookings [seed_booking_1, seed_booking_4]
        (Stored [done_booking]) ''rest-1''
        (Some \<lparr> bf_status = Some ''completed'', bf_date = None \<rparr>) = [done_booking]"
    using T unfolding e4 by (elim conjE)
  have n: "newestFirst b_createdAt
      (BookingService_getMyBookings (Some customer) [seed_booking_1, seed_booking_4]
         (Stored [done_booking]))"
    using T by (elim conjE)
  have m: "newestFirst rv_createdAt
      (ReviewService_getRestaurantReviews [seed_review_2, seed_review_3] (Stored [review_a])
         ''rest-1'')"
    using T by (elim conjE)
  have d: "distinct (map b_id
      (BookingService_getMyBookings (Some customer) [seed_booking_1, seed_booking_4]
         (Stored [done_booking])))"
    using T e3 by (elim conjE) (simp only:)
  from g n m d e5 show ?thesis
    by (simp add: e1 e2)
qed

subsection \<open>Toggling a favourite\<close>

lemma findIndex_snoc:
  "findIndex P xs = None \<Longrightarrow> P y \<Longrightarrow> findIndex P (xs @ [y]) = Some (length xs)"
  by (induction xs) (auto split: if_splits)

lemma some_iff_findIndex: "some P xs \<longleftrightarrow> findIndex P xs \<noteq> None"
  by (simp add: some_def list_ex_iff findIndex_None_iff)

lemma filter_splice1_findIndex:
  "findIndex P xs = Some i \<Longrightarrow> filter P (splice1 i xs) = tl (filter P xs)"
proof (induction xs arbitrary: i)
  case Nil
  then show ?case by simp
next
  case (Cons x xs)
  show ?case
  proof (cases "P x")
    case True
    with Cons.prems show ?thesis
      by (simp add: splice1_def)
  next
    case False
    with Cons.prems obtain k where k: "findIndex P xs = Some k" "i = Suc k"
      by auto
    from Cons.IH[OF k(1)] False k(2) show ?thesis
      by (simp add: splice1_def)
  qed
qed

text \<open>
  \<^verbatim>\<open>Database.toggleFavourite\<close>, the sibling, is an involution: on a pair that is not a
  favourite two calls return true then false and restore the store; on a pair stored
  once they return false then true and the pair is a favourite again.
\<close>

lemma Database_toggleFavourite_twice_absent:
  assumes "\<not> Database_isFavourite db userId restaurantId"
  shows "Database_toggleFavourite t0 t1 userId restaurantId db
           = (True, db\<lparr> db_favourites := db_favourites db @
                [\<lparr> f_id = ''fav-'' @ number_text t0, f_userId = userId,
                   f_restaurantId = restaurantId, f_createdAt = t1, f_restaurant = None \<rparr>] \<rparr>)"
    and "Database_toggleFavourite t2 t3 userId restaurantId
           (snd (Database_toggleFavourite t0 t1 userId restaurantId db)) = (False, db)"
proof -
  let ?P = "\<lambda>f. f_userId f = userId \<and> f_restaurantId f = restaurantId"
  from assms have n: "findIndex ?P (db_favourites db) = None"
    by (simp add: Database_isFavourite_def some_iff_findIndex)
  then show first: "Database_toggleFavourite t0 t1 userId restaurantId db
           = (True, db\<lparr> db_favourites := db_favourites db @
                [\<lparr> f_id = ''fav-'' @ number_text t0, f_userId = userId,
                   f_restaurantId = restaurantId, f_createdAt = t1, f_restaurant = None \<rparr>] \<rparr>)"
    by (simp add: Database_toggleFavourite_def Let_def)
  from n show "Database_toggleFavourite t2 t3 userId restaurantId
           (snd (Database_toggleFavourite t0 t1 userId restaurantId db)) = (False, db)"
    unfolding first
    by (simp add: Database_toggleFavourite_def Let_def findIndex_snoc splice1_def)
qed

lemma Database_toggleFavourite_twice_present:
  assumes "Database_isFavourite db userId restaurantId"
    and "length (filter (\<lambda>f. f_userId f = userId \<and> f_restaurantId f = restaurantId)
           (db_favourites db)) \<le> 1"
  shows "fst (Database_toggleFavourite t0 t1 userId restaurantId db) = False"
    and "fst (Database_toggleFavourite t2 t3 userId restaurantId
           (snd (Database_toggleFavourite t0 t1 userId restaurantId db))) = True"
    and "Database_isFavourite (snd (Database_toggleFavourite t2 t3 userId restaurantId
           (snd (Database_toggleFavourite t0 t1 userId restaurantId db)))) userId restaurantId"
proof -
  let ?P = "\<lambda>f. f_userId f = userId \<and> f_restaurantId f = restaurantId"
  from assms(1) obtain i where i: "findIndex ?P (db_favourites db) = Some i"
    by (auto simp: Database_isFavourite_def some_iff_findIndex)
  then have first: "Database_toggleFavourite t0 t1 userId restaurantId db
      = (False, db\<lparr> db_favourites := splice1 i (db_favourites db) \<rparr>)"
    by (simp add: Database_toggleFavourite_def Let_def)
  from assms(2) have "tl (filter ?P (db_favourites db)) = []"
    by (cases "filter ?P (db_favourites db)") simp_all
  with filter_splice1_findIndex[OF i] have "filter ?P (splice1 i (db_favourites db)) = []"
    by simp
  then have n: "findIndex ?P (splice1 i (db_favourites db)) = None"
    by (simp add: findIndex_None_iff filter_empty_conv)
  from first show "fst (Database_toggleFavourite t0 t1 userId restaurantId db) = False"
    by simp
  from n show "fst (Database_toggleFavourite t2 t3 userId restaurantId
           (snd (Database_toggleFavourite t0 t1 userId restaurantId db))) = True"
    unfolding first by (simp add: Database_toggleFavourite_def Let_def)
  from n show "Database_isFavourite (snd (Database_toggleFavourite t2 t3 userId restaurantId
           (snd (Database_toggleFavourite t0 t1 userId restaurantId db)))) userId restaurantId"
    unfolding first
    by (simp add: Database_toggleFavourite_def Let_def Database_isFavourite_def some_def)
qed

text \<open>
  C6 at a failing input. The pair (\<^verbatim>\<open>user-customer-1\<close>, \<^verbatim>\<open>rest-1\<close>) is a seed favourite. With
  the remote service unreachable \<^verbatim>\<open>toggleFavourite\<close> answers \<^verbatim>\<open>{isFavourite: false}\<close> on the
  first call and again on the second, while \<^verbatim>\<open>isFavourite\<close> keeps answering true:
  \<^verbatim>\<open>removeFavourite\<close> filters the local overlay only, and the seed entry stays.
\<close>

theorem C6_toggle_seed_favourite:
  "FavouriteService_isFavourite (Some customer) [fav_1] Absent ''rest-1''
   \<and> FavouriteService_toggleFavourite (Some customer) [fav_1] [demo_aurora]
        1772000000000 1772000000000 ''rest-1'' Absent = (Inr False, Stored [])
   \<and> FavouriteService_toggleFavourite (Some customer) [fav_1] [demo_aurora]
        1772000060000 1772000060000 ''rest-1'' (Stored []) = (Inr False, Stored [])
   \<and> FavouriteService_isFavourite (Some customer) [fav_1] (Stored []) ''rest-1''"
  by (simp add: FavouriteService_toggleFavourite_def FavouriteService_isFavourite_def
      FavouriteService_removeFavourite_def isDemoFavourite_def some_def
      getAllLocalFavourites_def saveAllLocalFavourites_def fav_1_def Let_def)

end
